theory Spec2Isabelle
  imports Complex_Main "HOL-Library.Monad_Syntax"
begin

section \<open>JavaScript numbers\<close>

text \<open>
  The repository is JavaScript: every number is an IEEE-754 double. The development
  idealises doubles as real numbers (slot indices, edge indices and counters, which the
  code only ever produces by \<^verbatim>\<open>Math.floor\<close>, \<^verbatim>\<open>Math.round\<close> and \<^verbatim>\<open>.length\<close>, are
  integers). The three operations below are the ones whose JavaScript meaning differs from
  the HOL operator of the same name.
\<close>

definition js_trunc :: "real \<Rightarrow> int" where
  \<comment> \<open>rounding toward zero, the quotient that \<^verbatim>\<open>%\<close> uses\<close>
  "js_trunc x = (if 0 \<le> x then \<lfloor>x\<rfloor> else \<lceil>x\<rceil>)"

definition js_mod :: "real \<Rightarrow> real \<Rightarrow> real" where
  \<comment> \<open>\<^verbatim>\<open>x % m\<close> on numbers: the remainder has the sign of the dividend\<close>
  "js_mod x m = x - m * of_int (js_trunc (x / m))"

definition js_imod :: "int \<Rightarrow> int \<Rightarrow> int" where
  \<comment> \<open>\<^verbatim>\<open>x % m\<close> on integer-valued numbers\<close>
  "js_imod x m = sgn x * (\<bar>x\<bar> mod \<bar>m\<bar>)"

definition js_round :: "real \<Rightarrow> int" where
  \<comment> \<open>\<^verbatim>\<open>Math.round\<close>: nearest integer, a tie goes up\<close>
  "js_round x = \<lfloor>x + 1 / 2\<rfloor>"

section \<open>Geometry kernel (puzzle.js)\<close>

definition CENTER :: real where "CENTER = 200"
definition SHAPE_ROTATION :: real where "SHAPE_ROTATION = 15"

definition degToRad :: "real \<Rightarrow> real" where
  "degToRad deg = (deg * pi) / 180"

definition mod360 :: "real \<Rightarrow> real" where
  "mod360 angle = js_mod (js_mod angle 360 + 360) 360"

definition hasAngleOrOpposite :: "real list \<Rightarrow> real \<Rightarrow> bool" where
  \<comment> \<open>the test with a tolerance of one degree\<close>
  "hasAngleOrOpposite list' angle =
     (let a0 = mod360 angle; a180 = mod360 (angle + 180)
      in list_ex (\<lambda>a. let ma = mod360 a in \<bar>ma - a0\<bar> < 1 \<or> \<bar>ma - a180\<bar> < 1) list')"

definition positionToAngle :: "int \<Rightarrow> real" where
  "positionToAngle pos = js_mod (of_int pos * 30 + 15) 360"

definition angleToPosition :: "real \<Rightarrow> int" where
  "angleToPosition angle =
     (let normalized = js_mod (angle - 15 + 360) 360
      in js_imod (js_round (normalized / 30)) 12)"

definition areAtSamePosition :: "real \<Rightarrow> real \<Rightarrow> bool" where
  "areAtSamePosition angle1 angle2 =
     (let pos1 = angleToPosition angle1; pos2 = angleToPosition angle2
      in pos1 = pos2 \<or> pos1 = js_imod (pos2 + 6) 12 \<or> pos2 = js_imod (pos1 + 6) 12)"

section \<open>Chromosomes of the evolutionary generators\<close>

text \<open>
  A chromosome circle holds emitter and blocker slots (numbers \<open>0..11\<close> drawn with
  \<^verbatim>\<open>Math.floor(Math.random() * 12)\<close>); a chromosome holds the lit edges and the circles.
  The fields \<^verbatim>\<open>fitness\<close>, \<^verbatim>\<open>solvable\<close> and \<^verbatim>\<open>breakdown\<close> that fitness evaluation writes
  are returned by the evaluation functions below instead of being stored.
\<close>

record gene_circle =
  emitters :: "int list"
  gblockers :: "int list"

record chromosome =
  glitEdges :: "int list"
  gcircles :: "gene_circle list"

definition emitterCounts :: "chromosome \<Rightarrow> nat list" where
  \<comment> \<open>\<^verbatim>\<open>chromosome.circles.map(circle => circle.emitters.length)\<close>\<close>
  "emitterCounts c = map (\<lambda>circle. length (emitters circle)) (gcircles c)"

fun math_max :: "nat list \<Rightarrow> nat" where
  \<comment> \<open>\<^verbatim>\<open>Math.max(...xs)\<close> on a non-empty list of counts (on the empty list JavaScript gives
      \<^verbatim>\<open>-Infinity\<close>; every caller below has returned before that point)\<close>
  "math_max [] = 0"
| "math_max (x # xs) = fold max xs x"

fun math_min :: "nat list \<Rightarrow> nat" where
  "math_min [] = 0"
| "math_min (x # xs) = fold min xs x"

subsection \<open>SimplifiedEvolutionaryGenerator: fitness\<close>

definition calculateDistributionScore :: "chromosome \<Rightarrow> real" where
  "calculateDistributionScore c =
     (let counts = emitterCounts c;
          totalEmitters = sum_list counts
      in if totalEmitters = 0 then 0
         else let emptyCircles = length (filter (\<lambda>count. count = 0) counts)
              in if emptyCircles > 0 then 0.1
                 else let maxCount = math_max counts;
                          minCount = math_min counts
                      in 1 - (real maxCount - real minCount) / real totalEmitters)"

definition calculateVarietyScore :: "chromosome \<Rightarrow> real" where
  \<comment> \<open>with no emitter at all JavaScript computes \<^verbatim>\<open>0 / 0 = NaN\<close> here; the results about this
      function assume an emitter\<close>
  "calculateVarietyScore c =
     (let varietyScore = fold (\<lambda>circle v. if length (emitters circle) > 4 then v - 0.2 else v)
                              (gcircles c) 1;
          allPositions = concat (map emitters (gcircles c));
          uniquePositions = remdups allPositions;
          diversityBonus = real (length uniquePositions) / real (length allPositions)
      in max 0 (varietyScore * diversityBonus))"

definition oppositePairs :: "int list \<Rightarrow> nat" where
  "oppositePairs es = length (filter (\<lambda>edge. js_imod (edge + 6) 12 \<in> set es) es)"

fun consecutiveGroups :: "int list \<Rightarrow> nat" where
  \<comment> \<open>the number of indices \<open>i < length - 1\<close> with \<open>es[i + 1] = es[i] + 1\<close>\<close>
  "consecutiveGroups (a # b # es) =
     (if b = a + 1 then 1 else 0) + consecutiveGroups (b # es)"
| "consecutiveGroups _ = 0"

definition calculateAestheticScore :: "chromosome \<Rightarrow> real" where
  "calculateAestheticScore c =
     (let es = glitEdges c;
          score = (if length es \<ge> 2
                   then 0.5 + real (oppositePairs es) * 0.1 + real (consecutiveGroups es) * 0.05
                   else 0.5)
      in min score 1)"

text \<open>
  \<^verbatim>\<open>calculateFitness\<close> first asks \<^verbatim>\<open>isChromosomeSolvable\<close> (the cached exhaustive ray-casting
  search) for the verdict and then combines it with the three structural scores. The
  verdict is the first argument here, so that the results hold for whatever the search
  answers. The function returns the pair that the code stores in \<^verbatim>\<open>chromosome.solvable\<close> and
  \<^verbatim>\<open>chromosome.fitness\<close>.
\<close>

definition calculateFitness :: "(chromosome \<Rightarrow> bool) \<Rightarrow> chromosome \<Rightarrow> bool \<times> real" where
  "calculateFitness isChromosomeSolvable c =
     (let solvable = isChromosomeSolvable c;
          distributionScore = calculateDistributionScore c;
          varietyScore = calculateVarietyScore c;
          aestheticScore = calculateAestheticScore c
      in (solvable,
          if solvable
          then 0.6 + 0.2 * distributionScore + 0.1 * varietyScore + 0.1 * aestheticScore
          else 0.3 * distributionScore + 0.1 * varietyScore + 0.1 * aestheticScore))"

subsection \<open>EvolutionaryPuzzleGenerator: distribution fitness\<close>

definition calculateDistributionFitness :: "chromosome \<Rightarrow> real" where
  "calculateDistributionFitness c =
     (let counts = emitterCounts c;
          totalEmitters = sum_list counts
      in if totalEmitters = 0 then 0
         else let emptyCircles = length (filter (\<lambda>count. count = 0) counts);
                  emptyPenalty = real emptyCircles * 0.3;
                  idealDistribution = real totalEmitters / 3;
                  variance = fold (\<lambda>count sum. sum + (real count - idealDistribution)\<^sup>2) counts 0 / 3;
                  evenness = exp (- variance / (real totalEmitters * 0.5))
              in max 0 (evenness - emptyPenalty))"

definition ringsNonEmpty :: "chromosome \<Rightarrow> bool" where
  \<comment> \<open>three circles, each with at least one emitter\<close>
  "ringsNonEmpty c \<longleftrightarrow>
     length (gcircles c) = 3 \<and> (\<forall>circle \<in> set (gcircles c). emitters circle \<noteq> [])"

subsection \<open>Sample chromosomes\<close>

definition emptyRingChromosome :: chromosome where
  "emptyRingChromosome =
     \<lparr>glitEdges = [0, 1, 6],
      gcircles = [\<lparr>emitters = [0], gblockers = []\<rparr>,
                  \<lparr>emitters = [1], gblockers = []\<rparr>,
                  \<lparr>emitters = [], gblockers = [2]\<rparr>]\<rparr>"

definition spreadChromosome :: chromosome where
  "spreadChromosome =
     \<lparr>glitEdges = [0, 1, 6],
      gcircles = [\<lparr>emitters = [0, 3], gblockers = [5]\<rparr>,
                  \<lparr>emitters = [1], gblockers = []\<rparr>,
                  \<lparr>emitters = [7], gblockers = [2]\<rparr>]\<rparr>"

definition evenChromosome :: chromosome where
  "evenChromosome =
     \<lparr>glitEdges = [2, 5, 9],
      gcircles = [\<lparr>emitters = [4], gblockers = []\<rparr>,
                  \<lparr>emitters = [8], gblockers = [1]\<rparr>,
                  \<lparr>emitters = [11], gblockers = []\<rparr>]\<rparr>"

section \<open>EvolutionaryPuzzleGenerator: solvability of a chromosome\<close>

text \<open>
  The full evolutionary generator decides solvability on the slot grid, with integer
  arithmetic only: a beam leaves a rotated slot through the centre, the first edge whose
  angular window contains the beam angle is its target, and a blocker on an outer circle
  within 15 degrees of the beam stops it.
\<close>

definition normalize360 :: "int \<Rightarrow> int" where
  \<comment> \<open>\<^verbatim>\<open>((a % 360) + 360) % 360\<close>\<close>
  "normalize360 a = js_imod (js_imod a 360 + 360) 360"

definition angleIntersectsEdge :: "int \<Rightarrow> int \<Rightarrow> int \<Rightarrow> bool" where
  "angleIntersectsEdge beamAngle edgeStart edgeEnd =
     (let beamAngle = normalize360 beamAngle;
          edgeStart = normalize360 edgeStart;
          edgeEnd = normalize360 edgeEnd
      in if edgeEnd < edgeStart
         then beamAngle \<ge> edgeStart \<or> beamAngle \<le> edgeEnd
         else beamAngle \<ge> edgeStart \<and> beamAngle \<le> edgeEnd)"

definition rotatedBeamAngle :: "int \<Rightarrow> int \<Rightarrow> int" where
  \<comment> \<open>\<^verbatim>\<open>rotatedPos = (emitterPos + rotation) % 12; emitterAngle = rotatedPos * 30;
      beamAngle = (emitterAngle + 180) % 360\<close>\<close>
  "rotatedBeamAngle emitterPos rotation =
     (let rotatedPos = js_imod (emitterPos + rotation) 12;
          emitterAngle = rotatedPos * 30
      in js_imod (emitterAngle + 180) 360)"

definition canEmitterHitEdge :: "int \<Rightarrow> int \<Rightarrow> nat \<Rightarrow> bool" where
  \<comment> \<open>the loop over \<open>rotation = 0, \<dots>, 11\<close> returns true at the first rotation whose beam
      meets the edge's window, false after the last\<close>
  "canEmitterHitEdge emitterPos edge circleIdx =
     (let edgeStartAngle = edge * 30;
          edgeEndAngle = (edge + 1) * 30
      in list_ex (\<lambda>rotation.
           angleIntersectsEdge (rotatedBeamAngle emitterPos rotation) edgeStartAngle edgeEndAngle)
         [0..11])"

definition heuristicSolvabilityCheckChromosome :: "chromosome \<Rightarrow> bool" where
  "heuristicSolvabilityCheckChromosome c =
     list_all (\<lambda>edge.
        list_ex (\<lambda>circleIdx.
           list_ex (\<lambda>emitterPos. canEmitterHitEdge emitterPos edge circleIdx)
                   (emitters (gcircles c ! circleIdx)))
          [0..<3])
       (glitEdges c)"

definition isBeamBlockedChromosome :: "nat \<Rightarrow> int \<Rightarrow> int list \<Rightarrow> chromosome \<Rightarrow> bool" where
  "isBeamBlockedChromosome emitterCircle emitterPos rotations c =
     (let beamAngle = js_imod (emitterPos * 30 + 180) 360
      in list_ex (\<lambda>circleIdx.
           list_ex (\<lambda>blockerPos.
              let rotatedBlockerPos = js_imod (blockerPos + rotations ! circleIdx) 12;
                  blockerAngle = rotatedBlockerPos * 30;
                  angleDiff = \<bar>js_imod (beamAngle - blockerAngle + 180) 360 - 180\<bar>
              in angleDiff < 15)
             (gblockers (gcircles c ! circleIdx)))
         [emitterCircle + 1..<3])"

definition beamTarget :: "int \<Rightarrow> int option" where
  \<comment> \<open>the inner loop over \<open>edge = 0, \<dots>, 11\<close> stops at the first edge the beam meets\<close>
  "beamTarget beamAngle =
     List.find (\<lambda>edge. angleIntersectsEdge beamAngle (edge * 30) ((edge + 1) * 30)) [0..11]"

definition emitterHitEdges :: "chromosome \<Rightarrow> int list \<Rightarrow> nat \<Rightarrow> int \<Rightarrow> int list" where
  \<comment> \<open>what one emitter adds to \<^verbatim>\<open>hitEdges\<close>\<close>
  "emitterHitEdges c rotations circleIdx emitterPos =
     (let rotation = rotations ! circleIdx;
          rotatedPos = js_imod (emitterPos + rotation) 12
      in case beamTarget (rotatedBeamAngle emitterPos rotation) of
           None \<Rightarrow> []
         | Some edge \<Rightarrow>
             if \<not> isBeamBlockedChromosome circleIdx rotatedPos rotations c then [edge] else [])"

definition hitEdges :: "chromosome \<Rightarrow> int list \<Rightarrow> int list" where
  "hitEdges c rotations =
     concat (map (\<lambda>circleIdx.
        concat (map (emitterHitEdges c rotations circleIdx) (emitters (gcircles c ! circleIdx))))
       [0..<3])"

definition isPuzzleSolvedWithRotationsChromosome :: "chromosome \<Rightarrow> int list \<Rightarrow> bool" where
  "isPuzzleSolvedWithRotationsChromosome c rotations =
     list_all (\<lambda>edge. edge \<in> set (hitEdges c rotations)) (glitEdges c)"

definition bruteForceSolvabilityCheckChromosome :: "chromosome \<Rightarrow> bool" where
  "bruteForceSolvabilityCheckChromosome c =
     list_ex (\<lambda>r1. list_ex (\<lambda>r2. list_ex (\<lambda>r3.
        isPuzzleSolvedWithRotationsChromosome c [r1, r2, r3]) [0..11]) [0..11]) [0..11]"

definition calculateSolvabilityFromChromosome :: "chromosome \<Rightarrow> real" where
  "calculateSolvabilityFromChromosome c =
     (if \<not> heuristicSolvabilityCheckChromosome c then 0.0
      else if bruteForceSolvabilityCheckChromosome c then 1.0 else 0.0)"

section \<open>Puzzles (puzzle.js) and the difficulty analyzer (difficulty-analyzer.js)\<close>

text \<open>
  A puzzle circle carries its radius and the angles, in degrees, of its emitters (the field
  \<^verbatim>\<open>lasers\<close>) and of its blockers; a puzzle is the list of lit edge indices and the circles.
\<close>

record circle =
  radius :: real
  lasers :: "real list"
  blockers :: "real list"

record puzzle =
  litEdges :: "int list"
  circles :: "circle list"

definition totalEmitters :: "puzzle \<Rightarrow> nat" where
  \<comment> \<open>\<^verbatim>\<open>puzzle.circles.reduce((sum, circle) => sum + circle.lasers.length, 0)\<close>\<close>
  "totalEmitters p = fold (\<lambda>circle sum. sum + length (lasers circle)) (circles p) 0"

definition totalBlockers :: "puzzle \<Rightarrow> nat" where
  "totalBlockers p = fold (\<lambda>circle sum. sum + length (blockers circle)) (circles p) 0"

definition totalElements :: "puzzle \<Rightarrow> nat" where
  "totalElements p =
     fold (\<lambda>circle sum. sum + length (lasers circle) + length (blockers circle)) (circles p) 0"

definition basicMetricsScore :: "puzzle \<Rightarrow> real" where
  \<comment> \<open>the field \<^verbatim>\<open>score\<close> of \<^verbatim>\<open>calculateBasicMetrics\<close>\<close>
  "basicMetricsScore p =
     (let numLitEdges = length (litEdges p);
          emitterScore = min (real (totalEmitters p) / 12) 1;
          blockerScore = min (real (totalBlockers p) / 8) 1;
          edgeScore = min (real numLitEdges / 8) 1
      in (emitterScore + blockerScore + edgeScore) / 3)"

definition rotationNeeded :: "int \<Rightarrow> real \<Rightarrow> real" where
  "rotationNeeded edge emitterAngle =
     (let targetAngle = js_mod (of_int edge * 30 + 15) 360;
          currentDirection = js_mod (emitterAngle + 180) 360
      in min \<bar>targetAngle - currentDirection\<bar> (360 - \<bar>targetAngle - currentDirection\<bar>) / 30)"

definition minRotationsForEdge :: "puzzle \<Rightarrow> int \<Rightarrow> real option" where
  \<comment> \<open>the running minimum that starts at \<^verbatim>\<open>Infinity\<close> (\<open>None\<close>)\<close>
  "minRotationsForEdge p edge =
     fold (\<lambda>circle m.
        fold (\<lambda>emitterAngle m.
           case m of None \<Rightarrow> Some (rotationNeeded edge emitterAngle)
                   | Some v \<Rightarrow> Some (min v (rotationNeeded edge emitterAngle)))
          (lasers circle) m)
       (circles p) None"

definition estimateMinimumRotations :: "puzzle \<Rightarrow> real" where
  "estimateMinimumRotations p =
     (let totalRotations =
            fold (\<lambda>edge total.
               total + (case minRotationsForEdge p edge of None \<Rightarrow> 3 | Some v \<Rightarrow> v))
              (litEdges p) 0
      in min totalRotations 20)"

definition conflicts :: "circle \<Rightarrow> circle \<Rightarrow> nat" where
  "conflicts circle1 circle2 =
     length (filter (\<lambda>(emitter1, blocker2).
                \<bar>js_mod (emitter1 - blocker2 + 180) 360 - 180\<bar> < 45)
       (List.product (lasers circle1) (blockers circle2)))"

definition pairInterdependency :: "circle \<Rightarrow> circle \<Rightarrow> real" where
  \<comment> \<open>\<^verbatim>\<open>conflicts / (circle1.lasers.length * circle2.blockers.length || 1)\<close>\<close>
  "pairInterdependency circle1 circle2 =
     (let n = length (lasers circle1) * length (blockers circle2)
      in real (conflicts circle1 circle2) / (if n = 0 then 1 else real n))"

definition calculateCircleInterdependency :: "puzzle \<Rightarrow> real" where
  "calculateCircleInterdependency p =
     (let n = length (circles p);
          interdependency =
            fold (\<lambda>i acc.
               fold (\<lambda>j acc. acc + pairInterdependency (circles p ! i) (circles p ! j))
                 [i + 1..<n] acc)
              [0..<n] 0
      in min interdependency 1)"

definition calculateSolutionUniqueness :: "puzzle \<Rightarrow> real" where
  "calculateSolutionUniqueness p =
     (let numLitEdges = length (litEdges p)
      in if numLitEdges = 0 then 1
         else let ratio = real (totalEmitters p) / real numLitEdges
              in min (ratio / 3) 1)"

definition solutionComplexityScore :: "puzzle \<Rightarrow> real" where
  \<comment> \<open>the field \<^verbatim>\<open>score\<close> of \<^verbatim>\<open>calculateSolutionComplexity\<close>\<close>
  "solutionComplexityScore p =
     (let minRotations = estimateMinimumRotations p;
          interdependency = calculateCircleInterdependency p;
          uniqueness = calculateSolutionUniqueness p
      in min (minRotations / 10) 1 * 0.4 + interdependency * 0.4 + (1 - uniqueness) * 0.2)"

definition calculateWorkingMemoryLoad :: "puzzle \<Rightarrow> real" where
  "calculateWorkingMemoryLoad p =
     (let itemsToTrack = real (length (litEdges p)) + real (totalEmitters p) * 0.5
                           + real (totalBlockers p) * 0.3
      in min (itemsToTrack / 9) 1)"

definition hasRotationalSymmetry :: "int list \<Rightarrow> nat \<Rightarrow> bool" where
  \<comment> \<open>\<open>fold\<close> is one of 2, 3, 4, 6, so \<^verbatim>\<open>i * 12 / fold\<close> is an integer\<close>
  "hasRotationalSymmetry es fold' =
     list_all (\<lambda>edge.
        list_ex (\<lambda>i. js_imod (edge + int (i * 12 div fold')) 12 \<in> set es) [1..<fold'])
       es"

definition calculateSymmetryFactor :: "puzzle \<Rightarrow> real" where
  "calculateSymmetryFactor p =
     fold (\<lambda>fold' symmetryScore.
        if hasRotationalSymmetry (litEdges p) fold' then max symmetryScore (1 / real fold')
        else symmetryScore)
       [2, 3, 4, 6] 0"

definition calculateVisualComplexity :: "puzzle \<Rightarrow> real" where
  "calculateVisualComplexity p =
     (let total = real (length (litEdges p)) + real (totalElements p);
          symmetryFactor = calculateSymmetryFactor p;
          baseComplexity = min (total / 20) 1
      in baseComplexity * (1 - symmetryFactor * 0.3))"

definition litGroups :: "int list \<Rightarrow> nat" where
  \<comment> \<open>the scan of \<open>i = 0, \<dots>, 11\<close> that counts maximal runs of lit edges; the state is
      \<^verbatim>\<open>(consecutiveGroups, currentGroup)\<close>\<close>
  "litGroups es =
     (let (consecutiveGroups, currentGroup) =
            fold (\<lambda>i (groups, current).
               if i \<in> set es then (groups, current + 1)
               else if current > 0 then (groups + 1, 0) else (groups, current))
              [0..11] (0::nat, 0::nat)
      in if currentGroup > 0 then consecutiveGroups + 1 else consecutiveGroups)"

definition checkForCommonPatterns :: "puzzle \<Rightarrow> real" where
  "checkForCommonPatterns p =
     (let s1 = (if litGroups (litEdges p) \<le> 2 then 0.3 else 0);
          s2 = (if oppositePairs (litEdges p) \<ge> 2 then s1 + 0.3 else s1)
      in min s2 1)"

fun spacings :: "int \<Rightarrow> int list \<Rightarrow> int list" where
  \<comment> \<open>the circular gaps of a sorted list whose first element is \<open>first\<close>\<close>
  "spacings first [] = []"
| "spacings first [a] = [if first > a then first - a else (12 - a) + first]"
| "spacings first (a # b # es) =
     (if b > a then b - a else (12 - a) + b) # spacings first (b # es)"

definition calculateSpacingRegularity :: "puzzle \<Rightarrow> real" where
  "calculateSpacingRegularity p =
     (if length (litEdges p) < 2 then 1
      else let sortedEdges = sort (litEdges p);
               sp = spacings (hd sortedEdges) sortedEdges;
               meanSpacing = fold (\<lambda>s sum. sum + real_of_int s) sp 0 / real (length sp);
               variance = fold (\<lambda>s sum. sum + (real_of_int s - meanSpacing)\<^sup>2) sp 0
                            / real (length sp)
           in max 0 (1 - variance / 10))"

definition calculatePatternDifficulty :: "puzzle \<Rightarrow> real" where
  "calculatePatternDifficulty p =
     (1 - checkForCommonPatterns p) * 0.6 + (1 - calculateSpacingRegularity p) * 0.4"

definition cognitiveLoadScore :: "puzzle \<Rightarrow> real" where
  \<comment> \<open>the field \<^verbatim>\<open>score\<close> of \<^verbatim>\<open>calculateCognitiveLoad\<close>\<close>
  "cognitiveLoadScore p =
     (calculateWorkingMemoryLoad p + calculateVisualComplexity p + calculatePatternDifficulty p) / 3"

definition calculateVisualBalance :: "puzzle \<Rightarrow> real" where
  "calculateVisualBalance p =
     (let emitterDistribution = map (\<lambda>circle. length (lasers circle)) (circles p);
          blockerDistribution = map (\<lambda>circle. length (blockers circle)) (circles p);
          emitterBalance =
            1 - (real (math_max emitterDistribution) - real (math_min emitterDistribution)) / 5;
          blockerBalance =
            1 - (real (math_max blockerDistribution) - real (math_min blockerDistribution)) / 3
      in max 0 ((emitterBalance + blockerBalance) / 2))"

definition calculateElegance :: "puzzle \<Rightarrow> real" where
  \<comment> \<open>with no element at all JavaScript divides by zero here; the results about the
      analyzer are about puzzles with an emitter\<close>
  "calculateElegance p =
     (let efficiency = real (length (litEdges p)) / real (totalElements p);
          complexityPenalty = max 0 ((real (totalElements p) - 15) / 10)
      in max 0 (min 1 (efficiency - complexityPenalty)))"

definition aestheticScore :: "puzzle \<Rightarrow> real" where
  \<comment> \<open>the field \<^verbatim>\<open>score\<close> of the analyzer's \<^verbatim>\<open>calculateAestheticScore\<close>\<close>
  "aestheticScore p =
     (calculateSymmetryFactor p + calculateVisualBalance p + calculateElegance p) / 3"

definition overallDifficulty :: "puzzle \<Rightarrow> real" where
  \<comment> \<open>the field \<^verbatim>\<open>overallDifficulty\<close> of \<^verbatim>\<open>analyzePuzzleDifficulty\<close>\<close>
  "overallDifficulty p =
     basicMetricsScore p * 0.3 + solutionComplexityScore p * 0.4 + cognitiveLoadScore p * 0.2
       + (1 - aestheticScore p) * 0.1"

definition denser :: "puzzle \<Rightarrow> puzzle \<Rightarrow> bool" where
  \<comment> \<open>\<open>denser d s\<close>: the same lit edges and radii, and ring by ring the emitters and
      blockers of \<open>s\<close> (each slot used once) are among those of \<open>d\<close>\<close>
  "denser d s \<longleftrightarrow>
     litEdges d = litEdges s \<and>
     list_all2 (\<lambda>cd cs.
        radius cd = radius cs \<and>
        distinct (lasers cs) \<and> set (lasers cs) \<subseteq> set (lasers cd) \<and>
        distinct (blockers cs) \<and> set (blockers cs) \<subseteq> set (blockers cd))
       (circles d) (circles s)"

subsection \<open>Sample puzzles\<close>

definition sparsePuzzle :: puzzle where
  "sparsePuzzle =
     \<lparr>litEdges = [0],
      circles = [\<lparr>radius = 50, lasers = [15], blockers = []\<rparr>,
                 \<lparr>radius = 90, lasers = [], blockers = []\<rparr>,
                 \<lparr>radius = 130, lasers = [], blockers = []\<rparr>]\<rparr>"

definition densePuzzle :: puzzle where
  "densePuzzle =
     \<lparr>litEdges = [0],
      circles = [\<lparr>radius = 50, lasers = [15, 195], blockers = []\<rparr>,
                 \<lparr>radius = 90, lasers = [], blockers = []\<rparr>,
                 \<lparr>radius = 130, lasers = [], blockers = []\<rparr>]\<rparr>"

section \<open>The solvability oracle (puzzle.js, isPuzzleSolvable)\<close>


text \<open>
  Under a rotation vector every emitter and blocker becomes an object with the index of its
  circle, its angle, its centre and the angle it has in the puzzle. The fields \<^verbatim>\<open>idx\<close>,
  \<^verbatim>\<open>angle\<close>, \<^verbatim>\<open>x\<close>, \<^verbatim>\<open>y\<close>, \<^verbatim>\<open>radius\<close> are \<open>o_idx\<close>, \<open>o_angle\<close>, \<open>o_x\<close>, \<open>o_y\<close>,
  \<open>o_radius\<close> here; an emitter has \<^verbatim>\<open>laserIdx\<close> in addition.
\<close>

record placed =
  o_idx :: nat
  o_angle :: real
  o_x :: real
  o_y :: real
  o_radius :: real
  originalAngle :: real

record emitter = placed +
  laserIdx :: nat

record edgeLine =
  e_i :: nat
  e_x1 :: real
  e_y1 :: real
  e_x2 :: real
  e_y2 :: real

datatype js_error = TypeError

definition placeEmitters :: "puzzle \<Rightarrow> real list \<Rightarrow> emitter list" where
  \<comment> \<open>\<^verbatim>\<open>puzzle.circles.flatMap((circle, idx) => circle.lasers.map((angle, i) => ...))\<close>\<close>
  "placeEmitters p rotations =
     concat (map (\<lambda>(idx, circle).
        map (\<lambda>(i, angle).
           let rotated = angle + rotations ! idx + SHAPE_ROTATION;
               rad = degToRad rotated
           in \<lparr>o_idx = idx, o_angle = rotated + 180,
               o_x = CENTER + radius circle * cos rad,
               o_y = CENTER + radius circle * sin rad,
               o_radius = radius circle, originalAngle = angle, laserIdx = i\<rparr>)
          (enumerate 0 (lasers circle)))
       (enumerate 0 (circles p)))"

definition placeBlockers :: "puzzle \<Rightarrow> real list \<Rightarrow> placed list" where
  "placeBlockers p rotations =
     concat (map (\<lambda>(idx, circle).
        map (\<lambda>angle.
           let rotated = angle + rotations ! idx + SHAPE_ROTATION;
               rad = degToRad rotated
           in \<lparr>o_idx = idx, o_angle = rotated,
               o_x = CENTER + radius circle * cos rad,
               o_y = CENTER + radius circle * sin rad,
               o_radius = radius circle, originalAngle = angle\<rparr>)
          (blockers circle))
       (enumerate 0 (circles p)))"


subsection \<open>One ray\<close>

datatype hitObj = Blocker placed | Emitter emitter | Edge edgeLine

type_synonym nearest = "(real \<times> hitObj) option"
  \<comment> \<open>\<^verbatim>\<open>(minT, hitType, hitObj)\<close>; \<open>None\<close> is the initial \<^verbatim>\<open>(Infinity, null, null)\<close>\<close>

definition closer :: "real \<Rightarrow> nearest \<Rightarrow> bool" where
  \<comment> \<open>\<^verbatim>\<open>t < minT\<close>\<close>
  "closer t st = (case st of None \<Rightarrow> True | Some (minT, _) \<Rightarrow> t < minT)"

definition circleHit :: "real \<Rightarrow> real \<Rightarrow> real \<Rightarrow> real \<Rightarrow> real \<Rightarrow> real \<Rightarrow> real \<Rightarrow> real option" where
  \<comment> \<open>the ray from \<open>(ex, ey)\<close> along \<open>(dx, dy)\<close> against the circle of squared radius \<open>r2\<close>
      around \<open>(cx, cy)\<close>: the code block that the two blocker branches and the emitter
      loop repeat\<close>
  "circleHit ex ey dx dy cx cy r2 =
     (let bx = cx - ex; by = cy - ey;
          proj = bx * dx + by * dy
      in if proj \<le> 0 then None
         else let perp2 = (bx * bx + by * by) - proj * proj
              in if perp2 < r2 then Some (proj - sqrt (r2 - perp2)) else None)"

definition record_hit :: "real option \<Rightarrow> hitObj \<Rightarrow> nearest \<Rightarrow> nearest" where
  \<comment> \<open>\<^verbatim>\<open>if (t < minT) { minT = t; hitType = ...; hitObj = ... }\<close>\<close>
  "record_hit ot obj st =
     (case ot of None \<Rightarrow> st | Some t \<Rightarrow> if closer t st then Some (t, obj) else st)"

definition blockerStep :: "emitter \<Rightarrow> real \<Rightarrow> real \<Rightarrow> placed \<Rightarrow> nearest \<Rightarrow> nearest" where
  "blockerStep e dx dy blocker st =
     (if o_idx blocker = o_idx e \<and> areAtSamePosition (originalAngle blocker) (originalAngle e)
      then record_hit (circleHit (o_x e) (o_y e) dx dy (o_x blocker) (o_y blocker) (12 * 12))
             (Blocker blocker) st
      else if o_idx blocker \<noteq> o_idx e
      then record_hit (circleHit (o_x e) (o_y e) dx dy (o_x blocker) (o_y blocker) (12 * 12))
             (Blocker blocker) st
      else st)"

definition sameEmitter :: "emitter \<Rightarrow> emitter \<Rightarrow> bool" where
  \<comment> \<open>\<^verbatim>\<open>other === emitter\<close>: the objects of one \<^verbatim>\<open>emitters\<close> array are told apart by their
      circle and their index on it\<close>
  "sameEmitter other e \<longleftrightarrow> o_idx other = o_idx e \<and> laserIdx other = laserIdx e"

definition emitterStep :: "emitter \<Rightarrow> real \<Rightarrow> real \<Rightarrow> emitter \<Rightarrow> nearest \<Rightarrow> nearest" where
  "emitterStep e dx dy other st =
     (if sameEmitter other e then st
      else record_hit (circleHit (o_x e) (o_y e) dx dy (o_x other) (o_y other) (13 * 13))
             (Emitter other) st)"

definition edgeHit :: "real \<Rightarrow> real \<Rightarrow> real \<Rightarrow> real \<Rightarrow> edgeLine \<Rightarrow> real option" where
  "edgeHit ex ey dx dy edge =
     (let x3 = e_x1 edge; y3 = e_y1 edge; x4 = e_x2 edge; y4 = e_y2 edge;
          denom = dx * (y4 - y3) - dy * (x4 - x3)
      in if \<bar>denom\<bar> < 1 / 10 ^ 6 then None
         else let t2 = ((x3 - ex) * (y4 - y3) - (y3 - ey) * (x4 - x3)) / denom;
                  t1 = ((x3 - ex) * dy - (y3 - ey) * dx) / denom
              in if t2 > 0 \<and> t1 \<ge> 0 \<and> t1 \<le> 1 then Some t2 else None)"

definition edgeStep :: "emitter \<Rightarrow> real \<Rightarrow> real \<Rightarrow> edgeLine \<Rightarrow> nearest \<Rightarrow> nearest" where
  "edgeStep e dx dy edge st = record_hit (edgeHit (o_x e) (o_y e) dx dy edge) (Edge edge) st"

definition castRay :: "emitter \<Rightarrow> placed list \<Rightarrow> emitter list \<Rightarrow> edgeLine list \<Rightarrow> nearest" where
  \<comment> \<open>the three obstacle loops, in the order of the code\<close>
  "castRay e blockers' emitters' lines =
     (let rad = degToRad (o_angle e);
          dx = cos rad; dy = sin rad
      in fold (edgeStep e dx dy) lines
           (fold (emitterStep e dx dy) emitters'
              (fold (blockerStep e dx dy) blockers' None)))"

definition closestIsLitEdge :: "nearest \<Rightarrow> int \<Rightarrow> bool" where
  \<comment> \<open>\<^verbatim>\<open>hitType === 'edge' && hitObj.i === litIdx\<close>\<close>
  "closestIsLitEdge st litIdx =
     (case st of Some (_, Edge edge) \<Rightarrow> int (e_i edge) = litIdx | _ \<Rightarrow> False)"

subsection \<open>The search over the rotations\<close>



subsection \<open>What the oracle is meant to decide\<close>


definition blockerCandidate :: "emitter \<Rightarrow> placed \<Rightarrow> bool" where
  \<comment> \<open>a blocker on another ring, or on the emitter's ring at the same or the opposite slot\<close>
  "blockerCandidate e b \<longleftrightarrow>
     o_idx b \<noteq> o_idx e \<or> areAtSamePosition (originalAngle b) (originalAngle e)"

definition blockerT :: "emitter \<Rightarrow> placed \<Rightarrow> real option" where
  \<comment> \<open>where the ray of \<open>e\<close> enters the collision circle of a blocker, of radius 12\<close>
  "blockerT e b =
     (let rad = degToRad (o_angle e)
      in circleHit (o_x e) (o_y e) (cos rad) (sin rad) (o_x b) (o_y b) (12 * 12))"

definition emitterT :: "emitter \<Rightarrow> emitter \<Rightarrow> real option" where
  \<comment> \<open>the same for the collision circle of another emitter, of radius 13\<close>
  "emitterT e other =
     (let rad = degToRad (o_angle e)
      in circleHit (o_x e) (o_y e) (cos rad) (sin rad) (o_x other) (o_y other) (13 * 13))"

definition edgeT :: "emitter \<Rightarrow> edgeLine \<Rightarrow> real option" where
  "edgeT e edge =
     (let rad = degToRad (o_angle e)
      in edgeHit (o_x e) (o_y e) (cos rad) (sin rad) edge)"

definition candidates :: "emitter \<Rightarrow> placed list \<Rightarrow> emitter list \<Rightarrow> edgeLine list \<Rightarrow> (real \<times> hitObj) list" where
  \<comment> \<open>the candidate obstacles that the ray of \<open>e\<close> meets, each with its ray parameter:
      candidate blockers, the other emitters, the polygon edges\<close>
  "candidates e bs es lines =
     concat (map (\<lambda>b. case (if blockerCandidate e b then blockerT e b else None) of
                         None \<Rightarrow> [] | Some t \<Rightarrow> [(t, Blocker b)]) bs)
     @ concat (map (\<lambda>other. case (if sameEmitter other e then None else emitterT e other) of
                         None \<Rightarrow> [] | Some t \<Rightarrow> [(t, Emitter other)]) es)
     @ concat (map (\<lambda>edge. case edgeT e edge of
                         None \<Rightarrow> [] | Some t \<Rightarrow> [(t, Edge edge)]) lines)"

definition isNearest :: "nearest \<Rightarrow> (real \<times> hitObj) list \<Rightarrow> bool" where
  \<comment> \<open>\<open>st\<close> is an obstacle of the list with the minimum ray parameter, or nothing when the
      list is empty\<close>
  "isNearest st cands \<longleftrightarrow>
     (case st of
        None \<Rightarrow> cands = []
      | Some (t, obj) \<Rightarrow> (t, obj) \<in> set cands \<and> (\<forall>(t', obj') \<in> set cands. t \<le> t'))"

subsection \<open>Sample puzzle and objects\<close>


definition offGridPuzzle :: puzzle where
  \<comment> \<open>on the inner ring an emitter in slot 0 (15 degrees) and a blocker at 25 degrees\<close>
  "offGridPuzzle =
     \<lparr>litEdges = [9],
      circles = [\<lparr>radius = 50, lasers = [15], blockers = [25]\<rparr>,
                 \<lparr>radius = 90, lasers = [], blockers = []\<rparr>,
                 \<lparr>radius = 130, lasers = [], blockers = []\<rparr>]\<rparr>"

definition offGridEmitter :: emitter where
  "offGridEmitter = hd (placeEmitters offGridPuzzle [0, 0, 0])"

definition offGridBlocker :: placed where
  "offGridBlocker = hd (placeBlockers offGridPuzzle [0, 0, 0])"

section \<open>Random choices\<close>

text \<open>
  Every generator draws from \<^verbatim>\<open>Math.random()\<close>. A run is modelled against the list of the
  numbers that \<^verbatim>\<open>Math.random()\<close> returns, in order; each call takes the head of the list.
  A function that needs a draw when the list is used up yields \<open>None\<close>: the run did not
  finish within the draws supplied. In particular a resampling loop that meets only
  occupied slots never finishes, whatever the number of draws.
\<close>

definition validDraws :: "real list \<Rightarrow> bool" where
  \<comment> \<open>\<^verbatim>\<open>Math.random()\<close> returns a number in \<open>[0, 1)\<close>\<close>
  "validDraws rs \<longleftrightarrow> (\<forall>r \<in> set rs. 0 \<le> r \<and> r < 1)"

definition randomFloor :: "real \<Rightarrow> real \<Rightarrow> int" where
  \<comment> \<open>\<^verbatim>\<open>Math.floor(Math.random() * n)\<close>, for the draw \<open>r\<close>\<close>
  "randomFloor r n = \<lfloor>r * n\<rfloor>"

fun pickDistinct :: "int \<Rightarrow> int list \<Rightarrow> real list \<Rightarrow> (int list \<times> real list) option" where
  \<comment> \<open>\<^verbatim>\<open>while (xs.length < n) { const v = Math.floor(Math.random() * 12);
      if (!xs.includes(v)) xs.push(v); }\<close>\<close>
  "pickDistinct n xs rs =
     (if int (length xs) < n
      then (case rs of
              [] \<Rightarrow> None
            | r # rs' \<Rightarrow>
                let v = randomFloor r 12
                in pickDistinct n (if v \<in> set xs then xs else xs @ [v]) rs')
      else Some (xs, rs))"

section \<open>Puzzle generation (puzzle.js, generatePuzzle)\<close>

fun placePairs :: "int \<Rightarrow> real list \<Rightarrow> int list \<Rightarrow> real list
    \<Rightarrow> ((real list \<times> int list) \<times> real list) option" where
  \<comment> \<open>the placement loop of one circle: a drawn position is taken when neither it nor its
      opposite is in \<^verbatim>\<open>usedPositions\<close>; then both are marked and the angle is appended\<close>
  "placePairs n placed' used rs =
     (if int (length placed') < n
      then (case rs of
              [] \<Rightarrow> None
            | r # rs' \<Rightarrow>
                let pos = randomFloor r 12;
                    oppositePos = js_imod (pos + 6) 12
                in if pos \<notin> set used \<and> oppositePos \<notin> set used
                   then placePairs n (placed' @ [positionToAngle pos]) (pos # oppositePos # used) rs'
                   else placePairs n placed' used rs')
      else Some ((placed', used), rs))"

definition randomCircle :: "real \<Rightarrow> real list \<Rightarrow> (circle \<times> real list) option" where
  \<comment> \<open>the body of \<^verbatim>\<open>[50, 90, 130].map((radius) => ...)\<close>\<close>
  "randomCircle radius' rs =
     (case rs of
        r1 # r2 # rs2 \<Rightarrow>
          let numEmit = randomFloor r1 3 + 1;
              numBlock = randomFloor r2 2 + 1
          in (case placePairs numEmit [] [] rs2 of
                None \<Rightarrow> None
              | Some ((lasers', used), rs3) \<Rightarrow>
                  (case placePairs numBlock [] used rs3 of
                     None \<Rightarrow> None
                   | Some ((blockers', _), rs4) \<Rightarrow>
                       Some (\<lparr>radius = radius', lasers = lasers', blockers = blockers'\<rparr>, rs4)))
      | _ \<Rightarrow> None)"

fun randomCircles :: "real list \<Rightarrow> real list \<Rightarrow> (circle list \<times> real list) option" where
  "randomCircles [] rs = Some ([], rs)"
| "randomCircles (radius' # radii) rs =
     (case randomCircle radius' rs of
        None \<Rightarrow> None
      | Some (c, rs') \<Rightarrow>
          (case randomCircles radii rs' of
             None \<Rightarrow> None
           | Some (cs, rs'') \<Rightarrow> Some (c # cs, rs'')))"

definition setFirst :: "'a list \<Rightarrow> 'a \<Rightarrow> 'a list" where
  \<comment> \<open>\<^verbatim>\<open>xs[0] = v\<close>, which gives the empty array its first element\<close>
  "setFirst xs v = (case xs of [] \<Rightarrow> [v] | _ # rest \<Rightarrow> v # rest)"

definition alignEmitter :: "nat \<times> int \<Rightarrow> circle list \<Rightarrow> circle list" where
  \<comment> \<open>step 3 for the lit edge \<open>targetPos\<close> at index \<open>i\<close>: the first emitter of circle
      \<open>i mod 3\<close> is moved to the slot of the edge when that slot and its opposite are free of
      the other emitters and of the blockers\<close>
  "alignEmitter it cs =
     (let i = fst it; targetPos = snd it;
          cidx = i mod 3;
          targetAngle = positionToAngle targetPos;
          c = cs ! cidx;
          usedPositions =
            concat (map (\<lambda>a. let pos = angleToPosition a in [pos, js_imod (pos + 6) 12])
                      (drop 1 (lasers c) @ blockers c))
      in if targetPos \<notin> set usedPositions \<and> js_imod (targetPos + 6) 12 \<notin> set usedPositions
         then cs[cidx := c\<lparr>lasers := setFirst (lasers c) targetAngle\<rparr>]
         else cs)"

definition generatePuzzle :: "int \<Rightarrow> int \<Rightarrow> real list \<Rightarrow> (puzzle \<times> real list) option" where
  "generatePuzzle minLit maxLit rs =
     (case rs of
        [] \<Rightarrow> None
      | r # rs1 \<Rightarrow>
          let numLit = randomFloor r (of_int (maxLit - minLit + 1)) + minLit
          in (case pickDistinct numLit [] rs1 of
                None \<Rightarrow> None
              | Some (picked, rs2) \<Rightarrow>
                  let litEdges' = sort picked
                  in (case randomCircles [50, 90, 130] rs2 of
                        None \<Rightarrow> None
                      | Some (cs, rs3) \<Rightarrow>
                          Some (\<lparr>litEdges = litEdges',
                                 circles = fold alignEmitter (enumerate 0 litEdges') cs\<rparr>, rs3))))"

section \<open>Difficulty presets (simplified-evolutionary-generator.js)\<close>

record preset =
  litEdgeRange :: "int \<times> int"
  emitterRange :: "int \<times> int"
  blockerRange :: "int \<times> int"

definition configs :: "(string \<times> preset) list" where
  \<comment> \<open>the object literal \<^verbatim>\<open>configs\<close>; the fields \<^verbatim>\<open>litEdges\<close>, \<^verbatim>\<open>totalEmitters\<close>, \<^verbatim>\<open>totalBlockers\<close>\<close>
  "configs =
     [(''easy'', \<lparr>litEdgeRange = (3, 4), emitterRange = (4, 6), blockerRange = (1, 2)\<rparr>),
      (''medium'', \<lparr>litEdgeRange = (3, 5), emitterRange = (5, 7), blockerRange = (2, 3)\<rparr>),
      (''hard'', \<lparr>litEdgeRange = (4, 6), emitterRange = (6, 8), blockerRange = (3, 4)\<rparr>)]"

definition objectPrototypeProperties :: "string list" where
  \<comment> \<open>the property names that an object literal inherits from \<^verbatim>\<open>Object.prototype\<close>: an index
      expression \<^verbatim>\<open>configs[name]\<close> finds them, and they are truthy\<close>
  "objectPrototypeProperties =
     [''constructor'', ''hasOwnProperty'', ''isPrototypeOf'', ''propertyIsEnumerable'',
      ''toLocaleString'', ''toString'', ''valueOf'', ''__proto__'', ''__defineGetter__'',
      ''__defineSetter__'', ''__lookupGetter__'', ''__lookupSetter__'']"

datatype config_value = Preset preset | Inherited string

definition getDifficultyConfig :: "string \<Rightarrow> config_value" where
  \<comment> \<open>\<^verbatim>\<open>return configs[difficulty] || configs.medium\<close>\<close>
  "getDifficultyConfig difficulty =
     (case map_of configs difficulty of
        Some c \<Rightarrow> Preset c
      | None \<Rightarrow>
          if difficulty \<in> set objectPrototypeProperties then Inherited difficulty
          else (case map_of configs ''medium'' of Some c \<Rightarrow> Preset c | None \<Rightarrow> Inherited ''medium''))"

subsection \<open>Sample runs\<close>

definition emptyLitRun :: "real list" where
  \<comment> \<open>draws for \<^verbatim>\<open>generatePuzzle(0, -1)\<close>: the count of lit edges, then for each circle the
      numbers of emitters and of blockers and their positions\<close>
  "emptyLitRun = [1/2, 0, 0, 0, 1/10, 0, 0, 0, 1/10, 0, 0, 0, 1/10]"

definition invertedRun :: "real list" where
  \<comment> \<open>draws for \<^verbatim>\<open>generatePuzzle(5, 3)\<close>\<close>
  "invertedRun =
     [1/2, 0, 1/10, 1/10, 1/2, 9/10, 3/10, 0, 0, 0, 1/10, 0, 0, 0, 1/10, 0, 0, 0, 1/10]"

section \<open>SimplifiedEvolutionaryGenerator: the genetic operators\<close>

text \<open>
  The simplified generator never mutates an array that two chromosomes share: elites are
  copied and never touched again, and \<^verbatim>\<open>mutate\<close> only runs on the offspring of \<^verbatim>\<open>crossover\<close>,
  whose arrays are fresh copies. Its chromosomes are therefore modelled as values. An
  individual is the chromosome with the \<^verbatim>\<open>fitness\<close> and \<^verbatim>\<open>solvable\<close> fields that evaluation
  writes.
\<close>

record individual =
  genome :: chromosome
  fitness :: real
  solvable :: bool

definition draw :: "real list \<Rightarrow> (real \<times> real list) option" where
  \<comment> \<open>one call of \<^verbatim>\<open>Math.random()\<close>\<close>
  "draw rs = (case rs of [] \<Rightarrow> None | r # rs' \<Rightarrow> Some (r, rs'))"

definition drawRange :: "int \<times> int \<Rightarrow> real list \<Rightarrow> (int \<times> real list) option" where
  \<comment> \<open>\<^verbatim>\<open>bounds[0] + Math.floor(Math.random() * (bounds[1] - bounds[0] + 1))\<close>\<close>
  "drawRange bounds rs =
     do { (r, rs') \<leftarrow> draw rs;
          Some (fst bounds + randomFloor r (of_int (snd bounds - fst bounds + 1)), rs') }"

definition drawIndex :: "nat \<Rightarrow> real list \<Rightarrow> (nat \<times> real list) option" where
  \<comment> \<open>\<^verbatim>\<open>Math.floor(Math.random() * n)\<close> used as an array index\<close>
  "drawIndex n rs = do { (r, rs') \<leftarrow> draw rs; Some (nat (randomFloor r (real n)), rs') }"

fun freshSlot :: "int list \<Rightarrow> real list \<Rightarrow> (int \<times> real list) option" where
  \<comment> \<open>\<^verbatim>\<open>do { newPos = Math.floor(Math.random() * 12); } while (occupied.includes(newPos));\<close>\<close>
  "freshSlot occupied [] = None"
| "freshSlot occupied (r # rs) =
     (let newPos = randomFloor r 12
      in if newPos \<in> set occupied then freshSlot occupied rs else Some (newPos, rs))"

fun fillSlots :: "nat \<Rightarrow> int list \<Rightarrow> int list \<Rightarrow> real list \<Rightarrow> (int list \<times> real list) option" where
  \<comment> \<open>\<^verbatim>\<open>while (own.length < n) { const pos = Math.floor(Math.random() * 12);
      if (!own.includes(pos) && !other.includes(pos)) own.push(pos); }\<close>\<close>
  "fillSlots n own other rs =
     (if length own < n
      then (case rs of
              [] \<Rightarrow> None
            | r # rs' \<Rightarrow>
                let pos = randomFloor r 12
                in fillSlots n (if pos \<notin> set own \<and> pos \<notin> set other then own @ [pos] else own)
                     other rs')
      else Some (own, rs))"

fun distribute :: "int \<Rightarrow> nat list \<Rightarrow> real list \<Rightarrow> (nat list \<times> real list) option" where
  \<comment> \<open>\<^verbatim>\<open>while (remaining > 0) { const circle = Math.floor(Math.random() * 3);
      distribution[circle]++; remaining--; }\<close>\<close>
  "distribute remaining distribution rs =
     (if remaining > 0
      then (case rs of
              [] \<Rightarrow> None
            | r # rs' \<Rightarrow>
                let circle = nat (randomFloor r 3)
                in distribute (remaining - 1)
                     (distribution[circle := distribution ! circle + 1]) rs')
      else Some (distribution, rs))"

definition randomGeneCircle :: "nat \<Rightarrow> nat \<Rightarrow> real list \<Rightarrow> (gene_circle \<times> real list) option" where
  \<comment> \<open>one circle of a random chromosome: the emitters first, then the blockers\<close>
  "randomGeneCircle numEmitters numBlockers rs =
     do { (es, rs1) \<leftarrow> fillSlots numEmitters [] [] rs;
          (bs, rs2) \<leftarrow> fillSlots numBlockers [] es rs1;
          Some (\<lparr>emitters = es, gblockers = bs\<rparr>, rs2) }"

fun randomGeneCircles :: "(nat \<times> nat) list \<Rightarrow> real list \<Rightarrow> (gene_circle list \<times> real list) option" where
  "randomGeneCircles [] rs = Some ([], rs)"
| "randomGeneCircles ((ne, nb) # counts) rs =
     do { (c, rs1) \<leftarrow> randomGeneCircle ne nb rs;
          (cs, rs2) \<leftarrow> randomGeneCircles counts rs1;
          Some (c # cs, rs2) }"

definition createRandomChromosome :: "preset \<Rightarrow> real list \<Rightarrow> (individual \<times> real list) option" where
  "createRandomChromosome config rs =
     do { (numLitEdges, rs1) \<leftarrow> drawRange (litEdgeRange config) rs;
          (picked, rs2) \<leftarrow> pickDistinct numLitEdges [] rs1;
          (totalEmitters', rs3) \<leftarrow> drawRange (emitterRange config) rs2;
          (totalBlockers', rs4) \<leftarrow> drawRange (blockerRange config) rs3;
          (emitterDistribution, rs5) \<leftarrow> distribute (totalEmitters' - 3) [1, 1, 1] rs4;
          (blockerDistribution, rs6) \<leftarrow> distribute totalBlockers' [0, 0, 0] rs5;
          (cs, rs7) \<leftarrow> randomGeneCircles (zip emitterDistribution blockerDistribution) rs6;
          Some (\<lparr>genome = \<lparr>glitEdges = sort picked, gcircles = cs\<rparr>,
                 fitness = 0, solvable = False\<rparr>, rs7) }"

fun createInitialPopulation :: "nat \<Rightarrow> preset \<Rightarrow> real list \<Rightarrow> (individual list \<times> real list) option" where
  \<comment> \<open>the first argument counts the chromosomes still to create, \<^verbatim>\<open>populationSize\<close> at the start\<close>
  "createInitialPopulation 0 config rs = Some ([], rs)"
| "createInitialPopulation (Suc n) config rs =
     do { (c, rs1) \<leftarrow> createRandomChromosome config rs;
          (cs, rs2) \<leftarrow> createInitialPopulation n config rs1;
          Some (c # cs, rs2) }"

definition selectParent :: "individual list \<Rightarrow> real list \<Rightarrow> (individual \<times> real list) option" where
  \<comment> \<open>a tournament of three random candidates; a later candidate wins only with a strictly
      greater fitness\<close>
  "selectParent population rs =
     do { (i1, rs1) \<leftarrow> drawIndex (length population) rs;
          (i2, rs2) \<leftarrow> drawIndex (length population) rs1;
          (i3, rs3) \<leftarrow> drawIndex (length population) rs2;
          let best = population ! i1;
              best = (if fitness (population ! i2) > fitness best then population ! i2 else best);
              best = (if fitness (population ! i3) > fitness best then population ! i3 else best)
          in Some (best, rs3) }"

definition uniqueInOrder :: "'a list \<Rightarrow> 'a list" where
  \<comment> \<open>\<^verbatim>\<open>[...new Set(xs)]\<close>: every value once, in the order of first occurrence\<close>
  "uniqueInOrder xs = rev (remdups (rev xs))"

fun inheritCircles :: "nat list \<Rightarrow> chromosome \<Rightarrow> chromosome \<Rightarrow> real list
    \<Rightarrow> (gene_circle list \<times> real list) option" where
  \<comment> \<open>\<^verbatim>\<open>for (let i = 0; i < 3; i++)\<close>: circle \<open>i\<close> is copied from the parent that the draw picks\<close>
  "inheritCircles [] parent1 parent2 rs = Some ([], rs)"
| "inheritCircles (i # is) parent1 parent2 rs =
     do { (r, rs1) \<leftarrow> draw rs;
          let sourceParent = (if r < 0.5 then parent1 else parent2);
              c = \<lparr>emitters = emitters (gcircles sourceParent ! i),
                   gblockers = gblockers (gcircles sourceParent ! i)\<rparr>
          in do { (cs, rs2) \<leftarrow> inheritCircles is parent1 parent2 rs1;
                  Some (c # cs, rs2) } }"

definition crossover :: "individual \<Rightarrow> individual \<Rightarrow> real list \<Rightarrow> (individual \<times> real list) option" where
  "crossover parent1 parent2 rs =
     (let allEdges = uniqueInOrder (glitEdges (genome parent1) @ glitEdges (genome parent2));
          targetSize = min (length allEdges) (max 3 (length (glitEdges (genome parent1))))
      in do { (cs, rs1) \<leftarrow> inheritCircles [0, 1, 2] (genome parent1) (genome parent2) rs;
              Some (\<lparr>genome = \<lparr>glitEdges = sort (take targetSize allEdges), gcircles = cs\<rparr>,
                     fitness = 0, solvable = False\<rparr>, rs1) })"

definition removeAt :: "nat \<Rightarrow> 'a list \<Rightarrow> 'a list" where
  \<comment> \<open>\<^verbatim>\<open>xs.splice(index, 1)\<close>\<close>
  "removeAt index xs = take index xs @ drop (index + 1) xs"

definition mutateLitEdges :: "int list \<Rightarrow> real list \<Rightarrow> (int list \<times> real list) option" where
  "mutateLitEdges es rs =
     do { (r1, rs1) \<leftarrow> draw rs;
          if r1 < 0.3 * 0.5
          then do { (r2, rs2) \<leftarrow> draw rs1;
                    if r2 < 0.5 \<and> length es > 3
                    then do { (index, rs3) \<leftarrow> drawIndex (length es) rs2;
                              Some (removeAt index es, rs3) }
                    else if length es < 6
                    then do { (newEdge, rs3) \<leftarrow> freshSlot es rs2;
                              Some (sort (es @ [newEdge]), rs3) }
                    else Some (es, rs2) }
          else Some (es, rs1) }"

definition mutateEmitters :: "gene_circle \<Rightarrow> real list \<Rightarrow> (gene_circle \<times> real list) option" where
  "mutateEmitters c rs =
     do { (r1, rs1) \<leftarrow> draw rs;
          if r1 < 0.3
          then do { (r2, rs2) \<leftarrow> draw rs1;
                    if r2 < 0.7 \<and> length (emitters c) > 0
                    then do { (index, rs3) \<leftarrow> drawIndex (length (emitters c)) rs2;
                              (newPos, rs4) \<leftarrow> freshSlot (emitters c @ gblockers c) rs3;
                              Some (c\<lparr>emitters := (emitters c)[index := newPos]\<rparr>, rs4) }
                    else do { (r3, rs3) \<leftarrow> draw rs2;
                              if r3 < 0.3 \<and> length (emitters c) > 1
                              then do { (index, rs4) \<leftarrow> drawIndex (length (emitters c)) rs3;
                                        Some (c\<lparr>emitters := removeAt index (emitters c)\<rparr>, rs4) }
                              else if length (emitters c) < 4
                              then do { (newPos, rs4) \<leftarrow> freshSlot (emitters c @ gblockers c) rs3;
                                        Some (c\<lparr>emitters := emitters c @ [newPos]\<rparr>, rs4) }
                              else Some (c, rs3) } }
          else Some (c, rs1) }"

definition mutateBlockers :: "gene_circle \<Rightarrow> real list \<Rightarrow> (gene_circle \<times> real list) option" where
  "mutateBlockers c rs =
     do { (r1, rs1) \<leftarrow> draw rs;
          if r1 < 0.3 * 0.5
          then do { (r2, rs2) \<leftarrow> draw rs1;
                    if r2 < 0.5 \<and> length (gblockers c) > 0
                    then do { (index, rs3) \<leftarrow> drawIndex (length (gblockers c)) rs2;
                              (newPos, rs4) \<leftarrow> freshSlot (emitters c @ gblockers c) rs3;
                              Some (c\<lparr>gblockers := (gblockers c)[index := newPos]\<rparr>, rs4) }
                    else do { (r3, rs3) \<leftarrow> draw rs2;
                              if r3 < 0.5 \<and> length (gblockers c) > 0
                              then do { (index, rs4) \<leftarrow> drawIndex (length (gblockers c)) rs3;
                                        Some (c\<lparr>gblockers := removeAt index (gblockers c)\<rparr>, rs4) }
                              else if length (gblockers c) < 3
                              then do { (newPos, rs4) \<leftarrow> freshSlot (emitters c @ gblockers c) rs3;
                                        Some (c\<lparr>gblockers := gblockers c @ [newPos]\<rparr>, rs4) }
                              else Some (c, rs3) } }
          else Some (c, rs1) }"

fun mutateCircles :: "gene_circle list \<Rightarrow> real list \<Rightarrow> (gene_circle list \<times> real list) option" where
  \<comment> \<open>the loop \<^verbatim>\<open>for (let circleIdx = 0; circleIdx < 3; circleIdx++)\<close>\<close>
  "mutateCircles [] rs = Some ([], rs)"
| "mutateCircles (c # cs) rs =
     do { (c1, rs1) \<leftarrow> mutateEmitters c rs;
          (c2, rs2) \<leftarrow> mutateBlockers c1 rs1;
          (cs', rs3) \<leftarrow> mutateCircles cs rs2;
          Some (c2 # cs', rs3) }"

definition ensureEmitter :: "gene_circle \<Rightarrow> real list \<Rightarrow> (gene_circle \<times> real list) option" where
  \<comment> \<open>\<^verbatim>\<open>if (circle.emitters.length === 0) { do { newPos = ... } while
      (circle.blockers.includes(newPos)); circle.emitters.push(newPos); }\<close>\<close>
  "ensureEmitter c rs =
     (if length (emitters c) = 0
      then do { (newPos, rs1) \<leftarrow> freshSlot (gblockers c) rs;
                Some (c\<lparr>emitters := emitters c @ [newPos]\<rparr>, rs1) }
      else Some (c, rs))"

fun ensureEmitters :: "gene_circle list \<Rightarrow> real list \<Rightarrow> (gene_circle list \<times> real list) option" where
  "ensureEmitters [] rs = Some ([], rs)"
| "ensureEmitters (c # cs) rs =
     do { (c', rs1) \<leftarrow> ensureEmitter c rs;
          (cs', rs2) \<leftarrow> ensureEmitters cs rs1;
          Some (c' # cs', rs2) }"

definition mutate :: "individual \<Rightarrow> real list \<Rightarrow> (individual \<times> real list) option" where
  \<comment> \<open>the circle loop visits the circles \<open>0, 1, 2\<close>\<close>
  "mutate ind rs =
     do { (es, rs1) \<leftarrow> mutateLitEdges (glitEdges (genome ind)) rs;
          (cs, rs2) \<leftarrow> mutateCircles (take 3 (gcircles (genome ind))) rs1;
          (cs', rs3) \<leftarrow> ensureEmitters (cs @ drop 3 (gcircles (genome ind))) rs2;
          Some (ind\<lparr>genome := \<lparr>glitEdges = es, gcircles = cs'\<rparr>\<rparr>, rs3) }"

fun breed :: "nat \<Rightarrow> individual list \<Rightarrow> real list \<Rightarrow> (individual list \<times> real list) option" where
  \<comment> \<open>\<^verbatim>\<open>while (newPopulation.length < this.populationSize)\<close>; the first argument counts the
      offspring still to produce\<close>
  "breed 0 population rs = Some ([], rs)"
| "breed (Suc n) population rs =
     do { (parent1, rs1) \<leftarrow> selectParent population rs;
          (parent2, rs2) \<leftarrow> selectParent population rs1;
          (offspring, rs3) \<leftarrow> crossover parent1 parent2 rs2;
          (offspring', rs4) \<leftarrow> mutate offspring rs3;
          (others, rs5) \<leftarrow> breed n population rs4;
          Some (offspring' # others, rs5) }"

definition populationSize :: nat where "populationSize = 20"
definition maxGenerations :: nat where "maxGenerations = 15"
definition eliteCount :: nat where
  \<comment> \<open>\<^verbatim>\<open>Math.floor(this.populationSize * this.eliteRatio)\<close> with the ratio 0.3\<close>
  "eliteCount = 6"

definition evolvePopulation :: "individual list \<Rightarrow> real list \<Rightarrow> (js_error + individual list \<times> real list) option" where
  \<comment> \<open>reading \<^verbatim>\<open>population[i].circles\<close> beyond the end of the population raises\<close>
  "evolvePopulation population rs =
     (if length population < eliteCount then Some (Inl TypeError)
      else do { (offspring, rs1) \<leftarrow> breed (populationSize - eliteCount) population rs;
                Some (Inr (take eliteCount population @ offspring, rs1)) })"

definition chromosomeToPuzzle :: "chromosome \<Rightarrow> puzzle" where
  "chromosomeToPuzzle c =
     \<lparr>litEdges = glitEdges c,
      circles = map (\<lambda>(index, circle).
                   \<lparr>radius = [50, 90, 130] ! index,
                    lasers = map (\<lambda>pos. 15 + 30 * of_int pos) (emitters circle),
                    blockers = map (\<lambda>pos. 15 + 30 * of_int pos) (gblockers circle)\<rparr>)
                  (enumerate 0 (gcircles c))\<rparr>"

definition evaluateIndividual :: "(chromosome \<Rightarrow> bool) \<Rightarrow> individual \<Rightarrow> individual" where
  \<comment> \<open>\<^verbatim>\<open>calculateFitness\<close> as \<^verbatim>\<open>evaluatePopulation\<close> applies it, writing its two results\<close>
  "evaluateIndividual isChromosomeSolvable ind =
     (let result = calculateFitness isChromosomeSolvable (genome ind)
      in ind\<lparr>fitness := snd result, solvable := fst result\<rparr>)"

definition sortByFitness :: "individual list \<Rightarrow> individual list" where
  \<comment> \<open>\<^verbatim>\<open>population.sort((a, b) => b.fitness - a.fitness)\<close>: best first, stable\<close>
  "sortByFitness population = sort_key (\<lambda>ind. - fitness ind) population"

fun evolveLoop :: "(chromosome \<Rightarrow> bool) \<Rightarrow> nat \<Rightarrow> individual list \<Rightarrow> real list
    \<Rightarrow> (js_error + individual list \<times> real list) option" where
  \<comment> \<open>\<^verbatim>\<open>while (generation < this.maxGenerations)\<close>; the second argument counts the generations
      left. Every population is evaluated before anything else is done with it.\<close>
  "evolveLoop S 0 population rs = Some (Inr (population, rs))"
| "evolveLoop S (Suc n) population rs =
     (let sorted = sortByFitness (map (evaluateIndividual S) population)
      in case sorted of
           [] \<Rightarrow> Some (Inl TypeError)
         | currentBest # _ \<Rightarrow>
             if solvable currentBest \<and> fitness currentBest > 0.7 then Some (Inr (sorted, rs))
             else (case evolvePopulation sorted rs of
                     None \<Rightarrow> None
                   | Some (Inl err) \<Rightarrow> Some (Inl err)
                   | Some (Inr (population', rs')) \<Rightarrow> evolveLoop S n population' rs'))"

definition generatePuzzle_simplified :: "(chromosome \<Rightarrow> bool) \<Rightarrow> string \<Rightarrow> real list
    \<Rightarrow> (js_error + puzzle \<times> real list) option" where
  \<comment> \<open>\<^verbatim>\<open>SimplifiedEvolutionaryGenerator.generatePuzzle\<close>; with an inherited property as its
      configuration, \<^verbatim>\<open>createRandomChromosome\<close> raises at \<^verbatim>\<open>config.litEdges[0]\<close>\<close>
  "generatePuzzle_simplified S difficulty rs =
     (case getDifficultyConfig difficulty of
        Inherited _ \<Rightarrow> Some (Inl TypeError)
      | Preset config \<Rightarrow>
          (case createInitialPopulation populationSize config rs of
             None \<Rightarrow> None
           | Some (population, rs1) \<Rightarrow>
               (case evolveLoop S maxGenerations population rs1 of
                  None \<Rightarrow> None
                | Some (Inl err) \<Rightarrow> Some (Inl err)
                | Some (Inr (population', rs2)) \<Rightarrow>
                    (case sortByFitness population' of
                       [] \<Rightarrow> Some (Inl TypeError)
                     | bestPuzzle # _ \<Rightarrow>
                         Some (Inr (chromosomeToPuzzle (genome bestPuzzle), rs2))))))"

subsection \<open>Invariants of chromosomes\<close>

definition circleDisjoint :: "gene_circle \<Rightarrow> bool" where
  "circleDisjoint c \<longleftrightarrow> set (emitters c) \<inter> set (gblockers c) = {}"

definition circleGood :: "gene_circle \<Rightarrow> bool" where
  "circleGood c \<longleftrightarrow> emitters c \<noteq> [] \<and> circleDisjoint c"

definition ringsDisjoint :: "chromosome \<Rightarrow> bool" where
  \<comment> \<open>on every ring, no slot holds both an emitter and a blocker\<close>
  "ringsDisjoint c \<longleftrightarrow> (\<forall>circle \<in> set (gcircles c). circleDisjoint circle)"

definition genomeGood :: "chromosome \<Rightarrow> bool" where
  "genomeGood c \<longleftrightarrow> length (gcircles c) = 3 \<and> (\<forall>circle \<in> set (gcircles c). circleGood circle)"

definition popGood :: "individual list \<Rightarrow> bool" where
  "popGood population \<longleftrightarrow> (\<forall>ind \<in> set population. genomeGood (genome ind))"

fun evaluatedPopulations :: "(chromosome \<Rightarrow> bool) \<Rightarrow> nat \<Rightarrow> individual list \<Rightarrow> real list
    \<Rightarrow> individual list list" where
  \<comment> \<open>the populations that \<open>evolveLoop\<close> hands to fitness evaluation, in order\<close>
  "evaluatedPopulations S 0 population rs = []"
| "evaluatedPopulations S (Suc n) population rs =
     population #
     (let sorted = sortByFitness (map (evaluateIndividual S) population)
      in case sorted of
           [] \<Rightarrow> []
         | currentBest # _ \<Rightarrow>
             if solvable currentBest \<and> fitness currentBest > 0.7 then []
             else (case evolvePopulation sorted rs of
                     Some (Inr (population', rs')) \<Rightarrow> evaluatedPopulations S n population' rs'
                   | _ \<Rightarrow> []))"

definition puzzleRingsNonEmpty :: "puzzle \<Rightarrow> bool" where
  "puzzleRingsNonEmpty p \<longleftrightarrow> length (circles p) = 3 \<and> (\<forall>c \<in> set (circles p). lasers c \<noteq> [])"

definition puzzleRingsDisjoint :: "puzzle \<Rightarrow> bool" where
  "puzzleRingsDisjoint p \<longleftrightarrow> (\<forall>c \<in> set (circles p). set (lasers c) \<inter> set (blockers c) = {})"

section \<open>EvolutionaryPuzzleGenerator: the genetic operators on shared objects\<close>

text \<open>
  The full generator copies chromosomes shallowly (\<^verbatim>\<open>{ ...parent1 }\<close>, \<^verbatim>\<open>{ ...population[i] }\<close>):
  the copy shares the \<^verbatim>\<open>litEdges\<close> array and the circle objects of the original, and
  \<^verbatim>\<open>mutate\<close> and \<^verbatim>\<open>repairChromosome\<close> change them in place. The model therefore keeps the
  circle objects and the \<^verbatim>\<open>litEdges\<close> arrays in a store and lets a population member refer
  to them by address (the index in the store). The emitter and blocker arrays belong to
  one circle object each, so a stored circle holds them as values.
\<close>

record store =
  circleStore :: "gene_circle list"
  litStore :: "int list list"

record member =
  litRef :: nat
  circleRefs :: "nat list"
  mfitness :: real

definition snapshot :: "store \<Rightarrow> member \<Rightarrow> chromosome" where
  \<comment> \<open>what the member's fields hold at the moment\<close>
  "snapshot s m =
     \<lparr>glitEdges = litStore s ! litRef m,
      gcircles = map (\<lambda>a. circleStore s ! a) (circleRefs m)\<rparr>"

definition allocate :: "chromosome \<Rightarrow> store \<Rightarrow> member \<times> store" where
  \<comment> \<open>a new chromosome object with new arrays and circle objects, fitness 0\<close>
  "allocate g s =
     (\<lparr>litRef = length (litStore s),
       circleRefs = [length (circleStore s)..<length (circleStore s) + length (gcircles g)],
       mfitness = 0\<rparr>,
      s\<lparr>circleStore := circleStore s @ gcircles g, litStore := litStore s @ [glitEdges g]\<rparr>)"

definition POPULATION_SIZE :: nat where "POPULATION_SIZE = 60"
definition MAX_GENERATIONS :: nat where "MAX_GENERATIONS = 50"
definition ELITE_COUNT :: nat where
  \<comment> \<open>\<^verbatim>\<open>Math.floor(POPULATION_SIZE * ELITE_RATIO)\<close> with the ratio 0.2\<close>
  "ELITE_COUNT = 12"

definition createRandomChromosome_full :: "preset \<Rightarrow> store \<Rightarrow> real list
    \<Rightarrow> ((member \<times> store) \<times> real list) option" where
  \<comment> \<open>\<^verbatim>\<open>EvolutionaryPuzzleGenerator.createRandomChromosome\<close> draws and places exactly as the
      simplified generator does (\<^verbatim>\<open>distributeElements(total, 3, min)\<close> is the loop \<open>distribute\<close>
      from \<open>[min, min, min]\<close>); the result is a new object\<close>
  "createRandomChromosome_full config s rs =
     do { (ind, rs') \<leftarrow> createRandomChromosome config rs;
          Some (allocate (genome ind) s, rs') }"

fun initializePopulation :: "nat \<Rightarrow> preset \<Rightarrow> store \<Rightarrow> real list
    \<Rightarrow> ((member list \<times> store) \<times> real list) option" where
  "initializePopulation 0 config s rs = Some (([], s), rs)"
| "initializePopulation (Suc n) config s rs =
     do { ((m, s1), rs1) \<leftarrow> createRandomChromosome_full config s rs;
          ((ms, s2), rs2) \<leftarrow> initializePopulation n config s1 rs1;
          Some ((m # ms, s2), rs2) }"

definition tournamentSelection :: "member list \<Rightarrow> real list \<Rightarrow> (member \<times> real list) option" where
  \<comment> \<open>\<^verbatim>\<open>tournamentSelection(population, 3)\<close>\<close>
  "tournamentSelection population rs =
     do { (i1, rs1) \<leftarrow> drawIndex (length population) rs;
          (i2, rs2) \<leftarrow> drawIndex (length population) rs1;
          (i3, rs3) \<leftarrow> drawIndex (length population) rs2;
          let best = population ! i1;
              best = (if mfitness (population ! i2) > mfitness best then population ! i2 else best);
              best = (if mfitness (population ! i3) > mfitness best then population ! i3 else best)
          in Some (best, rs3) }"

definition sliceTo :: "int \<Rightarrow> 'a list \<Rightarrow> 'a list" where
  \<comment> \<open>\<^verbatim>\<open>xs.slice(0, n)\<close>; a negative \<open>n\<close> counts from the end\<close>
  "sliceTo n xs = (if 0 \<le> n then take (nat n) xs else take (length xs - nat (- n)) xs)"

definition crossover_full :: "member \<Rightarrow> member \<Rightarrow> preset \<Rightarrow> store \<Rightarrow> real list
    \<Rightarrow> ((member \<times> store) \<times> real list) option" where
  "crossover_full parent1 parent2 config s rs =
     (let allEdges = uniqueInOrder (litStore s ! litRef parent1 @ litStore s ! litRef parent2)
      in do { (targetSize, rs1) \<leftarrow> drawRange (litEdgeRange config) rs;
              (cs, rs2) \<leftarrow> inheritCircles [0, 1, 2] (snapshot s parent1) (snapshot s parent2) rs1;
              Some (allocate \<lparr>glitEdges = sort (sliceTo targetSize allEdges), gcircles = cs\<rparr> s,
                    rs2) })"

definition mutateLitEdges_full :: "preset \<Rightarrow> int list \<Rightarrow> real list \<Rightarrow> (int list \<times> real list) option" where
  "mutateLitEdges_full config es rs =
     do { (r1, rs1) \<leftarrow> draw rs;
          if r1 < 0.1
          then do { (r2, rs2) \<leftarrow> draw rs1;
                    if r2 < 0.5 \<and> int (length es) > fst (litEdgeRange config)
                    then do { (index, rs3) \<leftarrow> drawIndex (length es) rs2;
                              Some (removeAt index es, rs3) }
                    else if int (length es) < snd (litEdgeRange config)
                    then do { (newEdge, rs3) \<leftarrow> freshSlot es rs2;
                              Some (sort (es @ [newEdge]), rs3) }
                    else Some (es, rs2) }
          else Some (es, rs1) }"

definition mutateEmitters_full :: "gene_circle \<Rightarrow> real list \<Rightarrow> (gene_circle \<times> real list) option" where
  "mutateEmitters_full c rs =
     do { (r1, rs1) \<leftarrow> draw rs;
          if r1 < 0.15
          then do { (r2, rs2) \<leftarrow> draw rs1;
                    if r2 < 0.5 \<and> length (emitters c) > 0
                    then do { (index, rs3) \<leftarrow> drawIndex (length (emitters c)) rs2;
                              (newPos, rs4) \<leftarrow> freshSlot (emitters c @ gblockers c) rs3;
                              Some (c\<lparr>emitters := (emitters c)[index := newPos]\<rparr>, rs4) }
                    else do { (r3, rs3) \<leftarrow> draw rs2;
                              if r3 < 0.5 \<and> length (emitters c) > 0
                              then do { (index, rs4) \<leftarrow> drawIndex (length (emitters c)) rs3;
                                        Some (c\<lparr>emitters := removeAt index (emitters c)\<rparr>, rs4) }
                              else do { (newPos, rs4) \<leftarrow> freshSlot (emitters c @ gblockers c) rs3;
                                        Some (c\<lparr>emitters := emitters c @ [newPos]\<rparr>, rs4) } } }
          else Some (c, rs1) }"

definition mutateBlockers_full :: "gene_circle \<Rightarrow> real list \<Rightarrow> (gene_circle \<times> real list) option" where
  "mutateBlockers_full c rs =
     do { (r1, rs1) \<leftarrow> draw rs;
          if r1 < 0.1
          then do { (r2, rs2) \<leftarrow> draw rs1;
                    if r2 < 0.5 \<and> length (gblockers c) > 0
                    then do { (index, rs3) \<leftarrow> drawIndex (length (gblockers c)) rs2;
                              (newPos, rs4) \<leftarrow> freshSlot (emitters c @ gblockers c) rs3;
                              Some (c\<lparr>gblockers := (gblockers c)[index := newPos]\<rparr>, rs4) }
                    else do { (r3, rs3) \<leftarrow> draw rs2;
                              if r3 < 0.5 \<and> length (gblockers c) > 0
                              then do { (index, rs4) \<leftarrow> drawIndex (length (gblockers c)) rs3;
                                        Some (c\<lparr>gblockers := removeAt index (gblockers c)\<rparr>, rs4) }
                              else do { (newPos, rs4) \<leftarrow> freshSlot (emitters c @ gblockers c) rs3;
                                        Some (c\<lparr>gblockers := gblockers c @ [newPos]\<rparr>, rs4) } } }
          else Some (c, rs1) }"

definition mutateCircle_full :: "gene_circle \<Rightarrow> real list \<Rightarrow> (gene_circle \<times> real list) option" where
  "mutateCircle_full c rs =
     do { (c1, rs1) \<leftarrow> mutateEmitters_full c rs; mutateBlockers_full c1 rs1 }"

fun overCircles :: "(gene_circle \<Rightarrow> real list \<Rightarrow> (gene_circle \<times> real list) option) \<Rightarrow> nat list
    \<Rightarrow> gene_circle list \<Rightarrow> real list \<Rightarrow> (gene_circle list \<times> real list) option" where
  \<comment> \<open>a loop over circle objects, given by their addresses, that changes each in place\<close>
  "overCircles f [] cst rs = Some (cst, rs)"
| "overCircles f (a # as) cst rs =
     do { (c', rs1) \<leftarrow> f (cst ! a) rs;
          overCircles f as (cst[a := c']) rs1 }"

definition mutate_full :: "member \<Rightarrow> preset \<Rightarrow> store \<Rightarrow> real list \<Rightarrow> (store \<times> real list) option" where
  "mutate_full m config s rs =
     do { (es, rs1) \<leftarrow> mutateLitEdges_full config (litStore s ! litRef m) rs;
          (cst, rs2) \<leftarrow> overCircles mutateCircle_full (take 3 (circleRefs m)) (circleStore s) rs1;
          Some (s\<lparr>circleStore := cst, litStore := (litStore s)[litRef m := es]\<rparr>, rs2) }"

function padLitEdges :: "int \<Rightarrow> int list \<Rightarrow> real list \<Rightarrow> (int list \<times> real list) option" where
  \<comment> \<open>\<^verbatim>\<open>while (litEdges.length < min) { do { newEdge = ... } while
      (litEdges.includes(newEdge)); litEdges.push(newEdge); }\<close>\<close>
  "padLitEdges lo es rs =
     (if int (length es) < lo
      then (case freshSlot es rs of
              None \<Rightarrow> None
            | Some (newEdge, rs') \<Rightarrow> padLitEdges lo (es @ [newEdge]) rs')
      else Some (es, rs))"
  by pat_completeness auto
termination
proof (relation "measure (\<lambda>(lo, es, rs). length rs)")
  show "wf (measure (\<lambda>(lo, es, rs). length rs))" by simp
next
  fix lo :: int and es rs x2 newEdge rs'
  assume "freshSlot es rs = Some x2" and "(newEdge, rs') = x2"
  then have f: "freshSlot es rs = Some (newEdge, rs')" by simp
  have "length b < length rs0" if "freshSlot occ rs0 = Some (a, b)" for occ rs0 a b
    using that
  proof (induction occ rs0 rule: freshSlot.induct)
    case (1 occupied)
    then show ?case by simp
  next
    case (2 occupied r rs)
    then show ?case by (auto simp: Let_def split: if_splits)
  qed
  from this [OF f]
  show "((lo, es @ [newEdge], rs'), lo, es, rs) \<in> measure (\<lambda>(lo, es, rs). length rs)"
    by simp
qed

fun trimLitEdges :: "int \<Rightarrow> int list \<Rightarrow> real list \<Rightarrow> (int list \<times> real list) option" where
  \<comment> \<open>\<^verbatim>\<open>while (litEdges.length > max) { index = ...; litEdges.splice(index, 1); }\<close>\<close>
  "trimLitEdges hi es rs =
     (if int (length es) > hi
      then (case rs of
              [] \<Rightarrow> None
            | r # rs' \<Rightarrow> trimLitEdges hi (removeAt (nat (randomFloor r (real (length es)))) es) rs')
      else Some (es, rs))"

definition repairCircle :: "gene_circle \<Rightarrow> real list \<Rightarrow> (gene_circle \<times> real list) option" where
  \<comment> \<open>an empty ring gets an emitter on a slot free of blockers; then the blockers that sit
      on an emitter's slot are removed\<close>
  "repairCircle c rs =
     do { (c1, rs1) \<leftarrow> ensureEmitter c rs;
          Some (c1\<lparr>gblockers := filter (\<lambda>pos. pos \<notin> set (emitters c1)) (gblockers c1)\<rparr>, rs1) }"

definition repairChromosome :: "member \<Rightarrow> preset \<Rightarrow> store \<Rightarrow> real list \<Rightarrow> (store \<times> real list) option" where
  "repairChromosome m config s rs =
     do { (es1, rs1) \<leftarrow> padLitEdges (fst (litEdgeRange config)) (litStore s ! litRef m) rs;
          (es2, rs2) \<leftarrow> trimLitEdges (snd (litEdgeRange config)) es1 rs1;
          (cst, rs3) \<leftarrow> overCircles repairCircle (circleRefs m) (circleStore s) rs2;
          Some (s\<lparr>circleStore := cst, litStore := (litStore s)[litRef m := sort es2]\<rparr>, rs3) }"

fun breed_full :: "nat \<Rightarrow> member list \<Rightarrow> preset \<Rightarrow> store \<Rightarrow> real list
    \<Rightarrow> ((member list \<times> store) \<times> real list) option" where
  \<comment> \<open>\<^verbatim>\<open>while (newPopulation.length < POPULATION_SIZE)\<close>; the first argument counts the
      offspring still to produce. Without crossover the offspring is a shallow copy of the
      first parent: it has the parent's arrays and circle objects.\<close>
  "breed_full 0 population config s rs = Some (([], s), rs)"
| "breed_full (Suc n) population config s rs =
     do { (parent1, rs1) \<leftarrow> tournamentSelection population rs;
          (parent2, rs2) \<leftarrow> tournamentSelection population rs1;
          (r, rs3) \<leftarrow> draw rs2;
          ((offspring, s1), rs4) \<leftarrow>
             (if r < 0.8 then crossover_full parent1 parent2 config s rs3
              else Some ((parent1, s), rs3));
          (r', rs5) \<leftarrow> draw rs4;
          (s2, rs6) \<leftarrow> (if r' < 0.3 then mutate_full offspring config s1 rs5 else Some (s1, rs5));
          (s3, rs7) \<leftarrow> repairChromosome offspring config s2 rs6;
          ((others, s4), rs8) \<leftarrow> breed_full n population config s3 rs7;
          Some ((offspring # others, s4), rs8) }"

definition evolvePopulation_full :: "member list \<Rightarrow> preset \<Rightarrow> store \<Rightarrow> real list
    \<Rightarrow> ((member list \<times> store) \<times> real list) option" where
  \<comment> \<open>for a population of at least \<open>ELITE_COUNT\<close> members (it always has
      \<open>POPULATION_SIZE\<close>); the elites are shallow copies\<close>
  "evolvePopulation_full population config s rs =
     do { ((offspring, s'), rs') \<leftarrow>
             breed_full (POPULATION_SIZE - ELITE_COUNT) population config s rs;
          Some ((take ELITE_COUNT population @ offspring, s'), rs') }"

fun evolveLoop_full :: "(preset \<Rightarrow> chromosome \<Rightarrow> real) \<Rightarrow> preset \<Rightarrow> nat \<Rightarrow> nat \<Rightarrow> member option
    \<Rightarrow> member list \<Rightarrow> store \<Rightarrow> real list
    \<Rightarrow> (js_error + (member option \<times> nat \<times> store) \<times> real list) option" where
  \<comment> \<open>\<^verbatim>\<open>while (generation < MAX_GENERATIONS && !this.shouldTerminate())\<close>: the generations left,
      \<^verbatim>\<open>this.convergenceCounter\<close>, \<^verbatim>\<open>bestIndividual\<close> (\<open>None\<close> is \<^verbatim>\<open>null\<close>), the population.
      The first argument is \<^verbatim>\<open>calculateFitness\<close>, which reads the chromosome and changes no
      circle.\<close>
  "evolveLoop_full fit config 0 counter best population s rs =
     Some (Inr ((best, counter, s), rs))"
| "evolveLoop_full fit config (Suc n) counter best population s rs =
     (if counter > 10 then Some (Inr ((best, counter, s), rs))
      else
        let evaluated = map (\<lambda>m. m\<lparr>mfitness := fit config (snapshot s m)\<rparr>) population;
            sorted = sort_key (\<lambda>m. - mfitness m) evaluated
        in case sorted of
             [] \<Rightarrow> Some (Inl TypeError)
           | currentBest # _ \<Rightarrow>
               let improved = (case best of None \<Rightarrow> True
                                | Some b \<Rightarrow> mfitness currentBest > mfitness b);
                   best' = (if improved then Some currentBest else best);
                   counter' = (if improved then 0 else counter + 1)
               in (case evolvePopulation_full sorted config s rs of
                     None \<Rightarrow> None
                   | Some ((population', s'), rs') \<Rightarrow>
                       evolveLoop_full fit config n counter' best' population' s' rs'))"

definition generatePuzzle_full :: "(preset \<Rightarrow> chromosome \<Rightarrow> real) \<Rightarrow> preset \<Rightarrow> nat \<Rightarrow> real list
    \<Rightarrow> (js_error + (chromosome \<times> nat) \<times> real list) option" where
  \<comment> \<open>\<^verbatim>\<open>EvolutionaryPuzzleGenerator.generatePuzzle\<close> from the configuration on, with the value
      of \<^verbatim>\<open>this.convergenceCounter\<close> at the call; the result is the puzzle and the counter.
      \<^verbatim>\<open>chromosomeToPuzzle\<close> copies the lit edges and, per circle, the emitters (as \<^verbatim>\<open>lasers\<close>)
      and the blockers that the best individual has at the end. When the loop never ran,
      \<^verbatim>\<open>bestIndividual\<close> is still \<^verbatim>\<open>null\<close> and reading its fitness raises.\<close>
  "generatePuzzle_full fit config counter rs =
     (case initializePopulation POPULATION_SIZE config \<lparr>circleStore = [], litStore = []\<rparr> rs of
        None \<Rightarrow> None
      | Some ((population, s), rs1) \<Rightarrow>
          (case evolveLoop_full fit config MAX_GENERATIONS counter None population s rs1 of
             None \<Rightarrow> None
           | Some (Inl err) \<Rightarrow> Some (Inl err)
           | Some (Inr ((None, _, _), _)) \<Rightarrow> Some (Inl TypeError)
           | Some (Inr ((Some bestIndividual, counter', s'), rs2)) \<Rightarrow>
               Some (Inr ((snapshot s' bestIndividual, counter'), rs2))))"

subsection \<open>Invariants of the store\<close>

definition storeGood :: "store \<Rightarrow> bool" where
  \<comment> \<open>every circle object has an emitter, and no slot of it holds an emitter and a blocker\<close>
  "storeGood s \<longleftrightarrow> (\<forall>c \<in> set (circleStore s). circleGood c)"

definition memberOk :: "store \<Rightarrow> member \<Rightarrow> bool" where
  \<comment> \<open>the member refers to three circle objects and one array of the store\<close>
  "memberOk s m \<longleftrightarrow>
     length (circleRefs m) = 3 \<and> (\<forall>a \<in> set (circleRefs m). a < length (circleStore s)) \<and>
     litRef m < length (litStore s)"

fun evaluatedSnapshots :: "(preset \<Rightarrow> chromosome \<Rightarrow> real) \<Rightarrow> preset \<Rightarrow> nat \<Rightarrow> nat \<Rightarrow> member option
    \<Rightarrow> member list \<Rightarrow> store \<Rightarrow> real list \<Rightarrow> chromosome list" where
  \<comment> \<open>the chromosomes that \<open>evolveLoop_full\<close> hands to fitness evaluation, in order\<close>
  "evaluatedSnapshots fit config 0 counter best population s rs = []"
| "evaluatedSnapshots fit config (Suc n) counter best population s rs =
     (if counter > 10 then []
      else
        map (snapshot s) population @
        (let evaluated = map (\<lambda>m. m\<lparr>mfitness := fit config (snapshot s m)\<rparr>) population;
             sorted = sort_key (\<lambda>m. - mfitness m) evaluated
         in case sorted of
              [] \<Rightarrow> []
            | currentBest # _ \<Rightarrow>
                let improved = (case best of None \<Rightarrow> True
                                 | Some b \<Rightarrow> mfitness currentBest > mfitness b);
                    best' = (if improved then Some currentBest else best);
                    counter' = (if improved then 0 else counter + 1)
                in (case evolvePopulation_full sorted config s rs of
                      None \<Rightarrow> []
                    | Some ((population', s'), rs') \<Rightarrow>
                        evaluatedSnapshots fit config n counter' best' population' s' rs')))"

section \<open>Properties of the geometry kernel\<close>

lemma positionToAngle_slot:
  assumes "0 \<le> s" "s < 12"
  shows "positionToAngle s = of_int s * 30 + 15"
proof -
  have "\<lfloor>(real_of_int s * 30 + 15) / 360\<rfloor> = 0"
    using assms by (simp add: floor_eq_iff)
  then show ?thesis
    using assms by (simp add: positionToAngle_def js_mod_def js_trunc_def)
qed

lemma js_imod_small: "0 \<le> x \<Longrightarrow> x < m \<Longrightarrow> js_imod x m = x"
  by (auto simp: js_imod_def sgn_if)

lemma angleToPosition_slot:
  assumes "0 \<le> s" "s < 12"
  shows "angleToPosition (of_int s * 30 + 15) = s"
proof -
  have q: "\<lfloor>(real_of_int s * 30 + 360) / 360\<rfloor> = 1"
    using assms by (simp add: floor_eq_iff)
  have n: "js_mod (real_of_int s * 30 + 15 - 15 + 360) 360 = real_of_int s * 30"
    using assms q by (simp add: js_mod_def js_trunc_def)
  have r: "js_round (real_of_int s * 30 / 30) = s"
    by (simp add: js_round_def floor_eq_iff)
  show ?thesis
    unfolding angleToPosition_def Let_def using n r assms by (simp add: js_imod_small)
qed

text \<open>
  Claim C3. For every slot \<open>s\<close> in \<open>[0, 12)\<close>, converting the slot to its angle
  (\<open>15 + 30 s\<close>) and back gives \<open>s\<close> again:
  \<open>angleToPosition (positionToAngle s) = s\<close>.
\<close>

theorem slot_round_trip:
  "0 \<le> s \<Longrightarrow> s < 12 \<Longrightarrow> angleToPosition (positionToAngle s) = s"
  by (simp add: positionToAngle_slot angleToPosition_slot)

theorem slot_round_trip_witness:
  "(0::int) \<le> 7 \<and> (7::int) < 12 \<and> angleToPosition (positionToAngle 7) = 7"
  using slot_round_trip [of 7] by simp

section \<open>Fitness scores of the evolutionary generators\<close>

lemma fold_max_ge: "a \<le> fold max xs (a::nat)"
  by (induction xs arbitrary: a) (auto intro: order_trans [OF max.cobounded2])

lemma fold_max_le_sum: "fold max xs (a::nat) \<le> a + sum_list xs"
proof (induction xs arbitrary: a)
  case Nil
  then show ?case by simp
next
  case (Cons x xs)
  have "fold max xs (max x a) \<le> max x a + sum_list xs" by (rule Cons.IH)
  also have "\<dots> \<le> a + (x + sum_list xs)" by simp
  finally show ?case by simp
qed

lemma fold_min_le: "fold min xs (a::nat) \<le> a"
  by (induction xs arbitrary: a) (auto intro: order_trans [OF _ min.cobounded2])

lemma math_min_le_max: "math_min xs \<le> math_max xs"
proof (cases xs)
  case Nil
  then show ?thesis by simp
next
  case (Cons x ys)
  have "fold min ys x \<le> x" by (rule fold_min_le)
  also have "x \<le> fold max ys x" by (rule fold_max_ge)
  finally show ?thesis using Cons by simp
qed

lemma math_max_le_sum: "math_max xs \<le> sum_list xs"
  by (cases xs) (simp_all add: fold_max_le_sum)

lemma calculateDistributionScore_range:
  "0 \<le> calculateDistributionScore c \<and> calculateDistributionScore c \<le> 1"
proof -
  let ?cs = "emitterCounts c"
  have a: "real (math_min ?cs) \<le> real (math_max ?cs)"
    using math_min_le_max [of ?cs] by simp
  have b: "real (math_max ?cs) \<le> real (sum_list ?cs)"
    using math_max_le_sum [of ?cs] by simp
  have "(real (math_max ?cs) - real (math_min ?cs)) / real (sum_list ?cs) \<le> 1"
    if "sum_list ?cs \<noteq> 0"
    using that b by (simp add: divide_le_eq)
  moreover have "0 \<le> (real (math_max ?cs) - real (math_min ?cs)) / real (sum_list ?cs)"
    using a by simp
  ultimately show ?thesis
    unfolding calculateDistributionScore_def Let_def by auto
qed

lemma variety_fold_le: "fold (\<lambda>circle v. if length (emitters circle) > 4 then v - 0.2 else v) cs (a::real) \<le> a"
proof (induction cs arbitrary: a)
  case Nil
  then show ?case by simp
next
  case (Cons x cs)
  show ?case
    using Cons.IH [of "a - 0.2"] Cons.IH [of a] by auto
qed

lemma calculateVarietyScore_range:
  "0 \<le> calculateVarietyScore c \<and> calculateVarietyScore c \<le> 1"
proof -
  define all where "all = concat (map emitters (gcircles c))"
  define v where
    "v = fold (\<lambda>circle v. if length (emitters circle) > 4 then v - 0.2 else v) (gcircles c) (1::real)"
  define d where "d = real (length (remdups all)) / real (length all)"
  have v: "v \<le> 1" unfolding v_def by (rule variety_fold_le)
  have d0: "0 \<le> d" unfolding d_def by simp
  have "length (remdups all) \<le> length all" by (rule length_remdups_leq)
  then have d1: "d \<le> 1" unfolding d_def by (simp add: divide_le_eq)
  have "v * d \<le> 1"
  proof (cases "0 \<le> v")
    case True
    then show ?thesis using v d0 d1 by (simp add: mult_le_one)
  next
    case False
    then have "v * d \<le> 0" using d0 by (simp add: mult_nonpos_nonneg)
    then show ?thesis by simp
  qed
  moreover have "calculateVarietyScore c = max 0 (v * d)"
    unfolding calculateVarietyScore_def Let_def v_def d_def all_def by simp
  ultimately show ?thesis by simp
qed

lemma calculateAestheticScore_range:
  "1 / 2 \<le> calculateAestheticScore c \<and> calculateAestheticScore c \<le> 1"
  unfolding calculateAestheticScore_def Let_def by simp

text \<open>
  Claim C10. In \<^verbatim>\<open>SimplifiedEvolutionaryGenerator.calculateFitness\<close>, for chromosomes whose
  three rings each hold at least one emitter, a chromosome judged solvable gets a fitness
  of at least \<open>0.6\<close> and one judged unsolvable a fitness of at most \<open>0.5\<close> (each
  sub-score lies in \<open>[0, 1]\<close>), so every solvable chromosome is ranked strictly above
  every unsolvable one. The verdict of the solvability search is arbitrary here.
\<close>

theorem fitness_separates_solvable:
  assumes "ringsNonEmpty c1" and "ringsNonEmpty c2"
    and "isChromosomeSolvable c1" and "\<not> isChromosomeSolvable c2"
  shows "fst (calculateFitness isChromosomeSolvable c1) \<and>
         0.6 \<le> snd (calculateFitness isChromosomeSolvable c1) \<and>
         \<not> fst (calculateFitness isChromosomeSolvable c2) \<and>
         snd (calculateFitness isChromosomeSolvable c2) \<le> 0.5 \<and>
         snd (calculateFitness isChromosomeSolvable c2) < snd (calculateFitness isChromosomeSolvable c1)"
proof -
  note d1 = calculateDistributionScore_range [of c1]
  note v1 = calculateVarietyScore_range [of c1]
  note a1 = calculateAestheticScore_range [of c1]
  note d2 = calculateDistributionScore_range [of c2]
  note v2 = calculateVarietyScore_range [of c2]
  note a2 = calculateAestheticScore_range [of c2]
  have f1: "snd (calculateFitness isChromosomeSolvable c1) =
      0.6 + 0.2 * calculateDistributionScore c1 + 0.1 * calculateVarietyScore c1
        + 0.1 * calculateAestheticScore c1"
    using assms(3) by (simp add: calculateFitness_def)
  have f2: "snd (calculateFitness isChromosomeSolvable c2) =
      0.3 * calculateDistributionScore c2 + 0.1 * calculateVarietyScore c2
        + 0.1 * calculateAestheticScore c2"
    using assms(4) by (simp add: calculateFitness_def)
  have s1: "fst (calculateFitness isChromosomeSolvable c1)"
    using assms(3) by (simp add: calculateFitness_def)
  have s2: "\<not> fst (calculateFitness isChromosomeSolvable c2)"
    using assms(4) by (simp add: calculateFitness_def)
  have lo: "0.6 \<le> snd (calculateFitness isChromosomeSolvable c1)"
    unfolding f1 using d1 v1 a1 by simp
  have hi: "snd (calculateFitness isChromosomeSolvable c2) \<le> 0.5"
    unfolding f2 using d2 v2 a2 by simp
  from lo hi have "snd (calculateFitness isChromosomeSolvable c2) < snd (calculateFitness isChromosomeSolvable c1)"
    by simp
  with s1 s2 lo hi show ?thesis by simp
qed

theorem fitness_separates_solvable_witness:
  "snd (calculateFitness (\<lambda>c. glitEdges c = [0, 1, 6]) evenChromosome)
     < snd (calculateFitness (\<lambda>c. glitEdges c = [0, 1, 6]) spreadChromosome)"
proof -
  have 1: "ringsNonEmpty spreadChromosome"
    by (simp add: ringsNonEmpty_def spreadChromosome_def)
  have 2: "ringsNonEmpty evenChromosome"
    by (simp add: ringsNonEmpty_def evenChromosome_def)
  have 3: "glitEdges spreadChromosome = [0, 1, 6]"
    by (simp add: spreadChromosome_def)
  have 4: "glitEdges evenChromosome \<noteq> [0, 1, 6]"
    by (simp add: evenChromosome_def)
  from fitness_separates_solvable [of spreadChromosome evenChromosome "\<lambda>c. glitEdges c = [0, 1, 6]",
      OF 1 2 3 4]
  show ?thesis by simp
qed

lemma empty_ring_counted:
  assumes "\<exists>circle \<in> set (gcircles c). emitters circle = []"
  shows "0 < length (filter (\<lambda>count. count = 0) (emitterCounts c))"
proof -
  from assms obtain circle where "circle \<in> set (gcircles c)" "emitters circle = []"
    by blast
  then have "0 \<in> set (emitterCounts c)"
    by (force simp: emitterCounts_def)
  then have "filter (\<lambda>count. count = 0) (emitterCounts c) \<noteq> []"
    by (simp add: filter_empty_conv)
  then show ?thesis by simp
qed

lemma variance_fold_nonneg: "0 \<le> a \<Longrightarrow> 0 \<le> fold (\<lambda>count sum. sum + (real count - m)\<^sup>2) counts (a::real)"
  by (induction counts arbitrary: a) simp_all

text \<open>
  Claim C8, as amended. For a chromosome with at least one emitter in total and at least
  one ring without emitters, the distribution component is a penalty, not zero:
  \<^verbatim>\<open>SimplifiedEvolutionaryGenerator.calculateDistributionScore\<close> returns exactly \<open>0.1\<close>, and
  \<^verbatim>\<open>EvolutionaryPuzzleGenerator.calculateDistributionFitness\<close> returns
  \<open>max 0 (evenness - 0.3 * emptyRings)\<close>, which lies between \<open>0\<close> and \<open>0.7\<close>.
  The claim as stated (the component is zero) fails for both generators on the chromosome
  with emitter counts \<open>1, 1, 0\<close>: the scores there are \<open>0.1\<close> and
  \<open>exp (- 2 / 9) - 0.3 > 0\<close>.
\<close>

theorem distribution_penalty_not_zero:
  assumes "0 < sum_list (emitterCounts c)"
    and "\<exists>circle \<in> set (gcircles c). emitters circle = []"
  shows "calculateDistributionScore c = 0.1 \<and>
         0 \<le> calculateDistributionFitness c \<and> calculateDistributionFitness c \<le> 0.7"
proof -
  define counts where "counts = emitterCounts c"
  define k where "k = length (filter (\<lambda>count. count = 0) counts)"
  define variance where
    "variance = fold (\<lambda>count sum. sum + (real count - real (sum_list counts) / 3)\<^sup>2) counts 0 / 3"
  define evenness where "evenness = exp (- variance / (real (sum_list counts) * 0.5))"
  have k: "1 \<le> k"
    using empty_ring_counted [OF assms(2)] unfolding k_def counts_def by linarith
  have tot: "0 < sum_list counts"
    using assms(1) by (simp add: counts_def)
  have nz: "sum_list (emitterCounts c) \<noteq> 0"
    using assms(1) by linarith
  have pos: "0 < length (filter (\<lambda>count. count = 0) (emitterCounts c))"
    by (rule empty_ring_counted [OF assms(2)])
  have simplified: "calculateDistributionScore c = 0.1"
    unfolding calculateDistributionScore_def Let_def using nz pos
    by (simp only: if_False if_True)
  have "0 \<le> variance"
    unfolding variance_def by (simp add: variance_fold_nonneg)
  then have "- variance / (real (sum_list counts) * 0.5) \<le> 0"
    using tot by (simp add: divide_le_0_iff)
  then have ev: "evenness \<le> 1"
    unfolding evenness_def by simp
  have full: "calculateDistributionFitness c = max 0 (evenness - real k * 0.3)"
    unfolding calculateDistributionFitness_def Let_def evenness_def variance_def k_def counts_def
    using nz by (simp only: if_False)
  have rk: "1 \<le> real k" using k by simp
  have "evenness - real k * 0.3 \<le> 0.7" using ev rk by linarith
  then have "max 0 (evenness - real k * 0.3) \<le> 0.7" by (simp only: max_def split: if_split) simp
  with simplified full show ?thesis by simp
qed

theorem distribution_penalty_not_zero_witness:
  "calculateDistributionScore emptyRingChromosome = 0.1 \<and>
   calculateDistributionFitness emptyRingChromosome \<le> 0.7"
proof -
  have 1: "0 < sum_list (emitterCounts emptyRingChromosome)"
    by (simp add: emptyRingChromosome_def emitterCounts_def)
  have 2: "\<exists>circle \<in> set (gcircles emptyRingChromosome). emitters circle = []"
    by (simp add: emptyRingChromosome_def)
  from distribution_penalty_not_zero [OF 1 2] show ?thesis by simp
qed

theorem distribution_zero_counterexample:
  "0 < sum_list (emitterCounts emptyRingChromosome) \<and>
   emitters (gcircles emptyRingChromosome ! 2) = [] \<and>
   calculateDistributionScore emptyRingChromosome \<noteq> 0 \<and>
   calculateDistributionFitness emptyRingChromosome \<noteq> 0"
proof -
  have s: "calculateDistributionScore emptyRingChromosome = 1 / 10"
    by (simp add: calculateDistributionScore_def emptyRingChromosome_def emitterCounts_def)
  have f: "calculateDistributionFitness emptyRingChromosome = max 0 (exp (- 2 / 9) - 3 / 10)"
    by (simp add: calculateDistributionFitness_def emptyRingChromosome_def emitterCounts_def
        power2_eq_square)
  have "1 + (- 2 / 9) \<le> exp (- 2 / 9 :: real)"
    by (rule exp_ge_add_one_self)
  then have "0 < exp (- 2 / 9 :: real) - 3 / 10" by simp
  with s f show ?thesis
    by (simp add: emptyRingChromosome_def emitterCounts_def)
qed

section \<open>The heuristic pre-filter of the full evolutionary generator\<close>

lemma brute_force_needs_heuristic:
  assumes "bruteForceSolvabilityCheckChromosome c"
  shows "heuristicSolvabilityCheckChromosome c"
proof -
  from assms obtain r1 r2 r3 where
    r: "r1 \<in> set [0..11]" "r2 \<in> set [0..11]" "r3 \<in> set [0..11]"
    and solved: "isPuzzleSolvedWithRotationsChromosome c [r1, r2, r3]"
    unfolding bruteForceSolvabilityCheckChromosome_def list_ex_iff by blast
  define rotations where "rotations = [r1, r2, r3]"
  have rot: "rotations ! circleIdx \<in> set [0..11]" if "circleIdx < 3" for circleIdx
  proof -
    from that have "circleIdx = 0 \<or> circleIdx = 1 \<or> circleIdx = 2" by linarith
    then show ?thesis using r by (auto simp: rotations_def)
  qed
  have "list_ex (\<lambda>circleIdx.
           list_ex (\<lambda>emitterPos. canEmitterHitEdge emitterPos edge circleIdx)
                   (emitters (gcircles c ! circleIdx))) [0..<3]"
    if lit: "edge \<in> set (glitEdges c)" for edge
  proof -
    from solved lit have "edge \<in> set (hitEdges c rotations)"
      unfolding isPuzzleSolvedWithRotationsChromosome_def list_all_iff rotations_def by blast
    then obtain circleIdx emitterPos where
      ci: "circleIdx < 3" and pos: "emitterPos \<in> set (emitters (gcircles c ! circleIdx))"
      and hit: "edge \<in> set (emitterHitEdges c rotations circleIdx emitterPos)"
      unfolding hitEdges_def by auto
    from hit have "beamTarget (rotatedBeamAngle emitterPos (rotations ! circleIdx)) = Some edge"
      unfolding emitterHitEdges_def Let_def by (auto split: option.splits if_splits)
    then have "angleIntersectsEdge (rotatedBeamAngle emitterPos (rotations ! circleIdx))
                 (edge * 30) ((edge + 1) * 30)"
      unfolding beamTarget_def by (auto simp: find_Some_iff)
    with rot [OF ci] have "canEmitterHitEdge emitterPos edge circleIdx"
      unfolding canEmitterHitEdge_def Let_def list_ex_iff by blast
    with ci pos show ?thesis
      unfolding list_ex_iff by auto
  qed
  then show ?thesis
    unfolding heuristicSolvabilityCheckChromosome_def list_all_iff by blast
qed

lemma spreadChromosome_solved:
  "isPuzzleSolvedWithRotationsChromosome spreadChromosome [1, 6, 1]"
  by code_simp

lemma spreadChromosome_brute_force: "bruteForceSolvabilityCheckChromosome spreadChromosome"
proof -
  have "(1::int) \<in> set [0..11]" "(6::int) \<in> set [0..11]" by simp_all
  with spreadChromosome_solved show ?thesis
    unfolding bruteForceSolvabilityCheckChromosome_def list_ex_iff by blast
qed

text \<open>
  Claim C6. For every chromosome (with its three circles),
  \<^verbatim>\<open>calculateSolvabilityFromChromosome\<close> returns \<open>1.0\<close> exactly when the full search over
  the 1728 rotations, \<^verbatim>\<open>bruteForceSolvabilityCheckChromosome\<close>, returns true: whenever the
  pre-filter \<^verbatim>\<open>heuristicSolvabilityCheckChromosome\<close> returns false the full search would
  return false as well, so the short cut never changes the score.
\<close>

theorem heuristic_prefilter_sound:
  assumes "length (gcircles c) = 3"
  shows "(calculateSolvabilityFromChromosome c = 1 \<longleftrightarrow> bruteForceSolvabilityCheckChromosome c) \<and>
         (\<not> heuristicSolvabilityCheckChromosome c \<longrightarrow> \<not> bruteForceSolvabilityCheckChromosome c)"
  using brute_force_needs_heuristic [of c]
  by (auto simp: calculateSolvabilityFromChromosome_def)

theorem heuristic_prefilter_sound_witness:
  "length (gcircles spreadChromosome) = 3 \<and>
   bruteForceSolvabilityCheckChromosome spreadChromosome \<and>
   calculateSolvabilityFromChromosome spreadChromosome = 1"
proof -
  have len: "length (gcircles spreadChromosome) = 3"
    by (simp add: spreadChromosome_def)
  from heuristic_prefilter_sound [OF len] spreadChromosome_brute_force len
  show ?thesis by blast
qed

section \<open>The difficulty analyzer and puzzle density\<close>

lemma fold_add_length:
  "fold (\<lambda>circle sum. sum + f circle) cs (a::nat) = a + sum_list (map f cs)"
  by (induction cs arbitrary: a) simp_all

lemma distinct_subset_length:
  assumes "distinct xs" "set xs \<subseteq> set ys"
  shows "length xs \<le> length ys"
proof -
  have "length xs = card (set xs)"
    using assms(1) by (simp add: distinct_card)
  also have "\<dots> \<le> card (set ys)"
    using assms(2) by (simp add: card_mono)
  also have "\<dots> \<le> length ys"
    by (rule card_length)
  finally show ?thesis .
qed

lemma list_all2_sum_mono:
  assumes "list_all2 (\<lambda>x y. g y \<le> (f x :: nat)) xs ys"
  shows "sum_list (map g ys) \<le> sum_list (map f xs)"
  using assms by (induction rule: list_all2_induct) simp_all

lemma denser_totalEmitters:
  assumes "denser d s"
  shows "totalEmitters s \<le> totalEmitters d"
proof -
  from assms have "list_all2 (\<lambda>cd cs. length (lasers cs) \<le> length (lasers cd)) (circles d) (circles s)"
    unfolding denser_def
    by (auto elim!: list_all2_mono intro: distinct_subset_length)
  then show ?thesis
    unfolding totalEmitters_def fold_add_length by (simp add: list_all2_sum_mono)
qed

lemma denser_totalBlockers:
  assumes "denser d s"
  shows "totalBlockers s \<le> totalBlockers d"
proof -
  from assms have "list_all2 (\<lambda>cd cs. length (blockers cs) \<le> length (blockers cd)) (circles d) (circles s)"
    unfolding denser_def
    by (auto elim!: list_all2_mono intro: distinct_subset_length)
  then show ?thesis
    unfolding totalBlockers_def fold_add_length by (simp add: list_all2_sum_mono)
qed

lemma dense_denser: "denser densePuzzle sparsePuzzle"
  by (simp add: denser_def densePuzzle_def sparsePuzzle_def)

subsection \<open>The two sample puzzles, evaluated\<close>

lemma js_mod_small: "0 \<le> x \<Longrightarrow> x < m \<Longrightarrow> js_mod x m = x"
proof -
  assume a: "0 \<le> x" "x < m"
  then have "\<lfloor>x / m\<rfloor> = 0" by (simp add: floor_eq_iff)
  moreover have "0 \<le> x / m" using a by simp
  ultimately show ?thesis by (simp add: js_mod_def js_trunc_def)
qed

lemma js_mod_once: "m \<le> x \<Longrightarrow> x < 2 * m \<Longrightarrow> 0 < m \<Longrightarrow> js_mod x m = x - m"
proof -
  assume a: "m \<le> x" "x < 2 * m" "0 < m"
  then have "\<lfloor>x / m\<rfloor> = 1" by (simp add: floor_eq_iff pos_le_divide_eq pos_divide_less_eq)
  moreover have "0 \<le> x / m" using a by simp
  ultimately show ?thesis by (simp add: js_mod_def js_trunc_def)
qed

lemma upto_0_11: "[0..11] = [0,1,2,3,4,5,6,7,8,9,10,11::int]"
  by (simp add: upto.simps)

lemma sparse_fields:
  "litEdges sparsePuzzle = [0]"
  "circles sparsePuzzle = [\<lparr>radius = 50, lasers = [15], blockers = []\<rparr>,
                 \<lparr>radius = 90, lasers = [], blockers = []\<rparr>,
                 \<lparr>radius = 130, lasers = [], blockers = []\<rparr>]"
  by (simp_all add: sparsePuzzle_def)

lemma dense_fields:
  "litEdges densePuzzle = [0]"
  "circles densePuzzle = [\<lparr>radius = 50, lasers = [15, 195], blockers = []\<rparr>,
                 \<lparr>radius = 90, lasers = [], blockers = []\<rparr>,
                 \<lparr>radius = 130, lasers = [], blockers = []\<rparr>]"
  by (simp_all add: densePuzzle_def)

lemma sparse_totals:
  "totalEmitters sparsePuzzle = 1" "totalBlockers sparsePuzzle = 0" "totalElements sparsePuzzle = 1"
  by (simp_all add: totalEmitters_def totalBlockers_def totalElements_def sparse_fields)

lemma dense_totals:
  "totalEmitters densePuzzle = 2" "totalBlockers densePuzzle = 0" "totalElements densePuzzle = 2"
  by (simp_all add: totalEmitters_def totalBlockers_def totalElements_def dense_fields)

lemma rot_0_15: "rotationNeeded 0 15 = 6"
  by (simp add: rotationNeeded_def js_mod_small)

lemma rot_0_195: "rotationNeeded 0 195 = 0"
  by (simp add: rotationNeeded_def js_mod_small js_mod_once)

lemma sparse_rot: "estimateMinimumRotations sparsePuzzle = 6"
  by (simp add: estimateMinimumRotations_def minRotationsForEdge_def sparse_fields rot_0_15)

lemma dense_rot: "estimateMinimumRotations densePuzzle = 0"
  by (simp add: estimateMinimumRotations_def minRotationsForEdge_def dense_fields rot_0_15 rot_0_195)

lemma no_blockers_inter:
  "blockers c2 = [] \<Longrightarrow> pairInterdependency c1 c2 = 0"
  by (simp add: pairInterdependency_def conflicts_def)

lemma sparse_inter: "calculateCircleInterdependency sparsePuzzle = 0"
  by (simp add: calculateCircleInterdependency_def sparse_fields no_blockers_inter)

lemma dense_inter: "calculateCircleInterdependency densePuzzle = 0"
  by (simp add: calculateCircleInterdependency_def dense_fields no_blockers_inter)

lemma sparse_solution: "solutionComplexityScore sparsePuzzle = 28 / 75"
  by (simp add: solutionComplexityScore_def sparse_rot sparse_inter calculateSolutionUniqueness_def
      sparse_totals sparse_fields)

lemma dense_solution: "solutionComplexityScore densePuzzle = 1 / 15"
  by (simp add: solutionComplexityScore_def dense_rot dense_inter calculateSolutionUniqueness_def
      dense_totals dense_fields)

lemma upt_from_1:
  "[Suc 0..<2] = [1]" "[Suc 0..<3] = [1, 2]" "[Suc 0..<4] = [1, 2, 3]"
  "[Suc 0..<6] = [1, 2, 3, 4, 5]"
  by code_simp+

lemma sym_single: "calculateSymmetryFactor \<lparr>litEdges = [0], circles = cs\<rparr> = 0"
  by (simp add: calculateSymmetryFactor_def hasRotationalSymmetry_def js_imod_def upt_from_1)

lemma pattern_single: "calculatePatternDifficulty \<lparr>litEdges = [0], circles = cs\<rparr> = 21 / 50"
  by (simp add: calculatePatternDifficulty_def checkForCommonPatterns_def litGroups_def
      upto_0_11 oppositePairs_def js_imod_def calculateSpacingRegularity_def)

lemma sparse_cognitive: "cognitiveLoadScore sparsePuzzle = 103 / 450"
proof -
  have "calculateSymmetryFactor sparsePuzzle = 0" "calculatePatternDifficulty sparsePuzzle = 21 / 50"
    unfolding sparsePuzzle_def by (rule sym_single, rule pattern_single)
  then show ?thesis
    by (simp add: cognitiveLoadScore_def calculateWorkingMemoryLoad_def
        calculateVisualComplexity_def sparse_totals sparse_fields)
qed

lemma dense_cognitive: "cognitiveLoadScore densePuzzle = 713 / 2700"
proof -
  have "calculateSymmetryFactor densePuzzle = 0" "calculatePatternDifficulty densePuzzle = 21 / 50"
    unfolding densePuzzle_def by (rule sym_single, rule pattern_single)
  then show ?thesis
    by (simp add: cognitiveLoadScore_def calculateWorkingMemoryLoad_def
        calculateVisualComplexity_def dense_totals dense_fields)
qed

lemma sparse_aesthetic: "aestheticScore sparsePuzzle = 19 / 30"
proof -
  have "calculateSymmetryFactor sparsePuzzle = 0"
    unfolding sparsePuzzle_def by (rule sym_single)
  then show ?thesis
    by (simp add: aestheticScore_def calculateVisualBalance_def calculateElegance_def
        sparse_totals sparse_fields)
qed

lemma dense_aesthetic: "aestheticScore densePuzzle = 13 / 30"
proof -
  have "calculateSymmetryFactor densePuzzle = 0"
    unfolding densePuzzle_def by (rule sym_single)
  then show ?thesis
    by (simp add: aestheticScore_def calculateVisualBalance_def calculateElegance_def
        dense_totals dense_fields)
qed

lemma sparse_basic: "basicMetricsScore sparsePuzzle = 5 / 72"
  by (simp add: basicMetricsScore_def sparse_totals sparse_fields)

lemma dense_basic: "basicMetricsScore densePuzzle = 7 / 72"
  by (simp add: basicMetricsScore_def dense_totals dense_fields)

lemma overall_sparse: "overallDifficulty sparsePuzzle = 4547 / 18000"
  by (simp add: overallDifficulty_def sparse_basic sparse_solution sparse_cognitive sparse_aesthetic)

lemma overall_dense: "overallDifficulty densePuzzle = 8927 / 54000"
  by (simp add: overallDifficulty_def dense_basic dense_solution dense_cognitive dense_aesthetic)

text \<open>
  Claim C9, as amended. For two puzzles with the same lit edges where one puzzle's rings
  contain the emitters and blockers of the other's (the denser puzzle), the element-count
  scores of \<^verbatim>\<open>analyzePuzzleDifficulty\<close> are monotone: \<^verbatim>\<open>basicMetrics.score\<close> and the
  working-memory load of the denser puzzle are at least those of the sparser one.
  \<^verbatim>\<open>overallDifficulty\<close> itself is not monotone: an added emitter lowers
  \<^verbatim>\<open>estimateMinimumRotations\<close> and raises \<^verbatim>\<open>calculateSolutionUniqueness\<close>, and the puzzle with
  lit edge 0 and one emitter at 15 degrees scores \<open>4547 / 18000\<close> while the same puzzle
  with a second emitter at 195 degrees scores \<open>8927 / 54000\<close>.
\<close>

theorem density_raises_count_scores:
  assumes "denser d s"
  shows "basicMetricsScore s \<le> basicMetricsScore d \<and>
         calculateWorkingMemoryLoad s \<le> calculateWorkingMemoryLoad d"
proof -
  have e: "real (totalEmitters s) \<le> real (totalEmitters d)"
    using denser_totalEmitters [OF assms] by simp
  have b: "real (totalBlockers s) \<le> real (totalBlockers d)"
    using denser_totalBlockers [OF assms] by simp
  have l: "litEdges d = litEdges s"
    using assms by (simp add: denser_def)
  have e': "min (real (totalEmitters s) / 12) 1 \<le> min (real (totalEmitters d) / 12) 1"
    using e by (simp add: min_le_iff_disj)
  have b': "min (real (totalBlockers s) / 8) 1 \<le> min (real (totalBlockers d) / 8) 1"
    using b by (simp add: min_le_iff_disj)
  have basic: "basicMetricsScore s \<le> basicMetricsScore d"
    unfolding basicMetricsScore_def Let_def l using e' b' by (simp add: divide_right_mono)
  have "(real (length (litEdges s)) + real (totalEmitters s) * 0.5 + real (totalBlockers s) * 0.3) / 9
        \<le> (real (length (litEdges s)) + real (totalEmitters d) * 0.5 + real (totalBlockers d) * 0.3) / 9"
    using e b by simp
  then have wm: "calculateWorkingMemoryLoad s \<le> calculateWorkingMemoryLoad d"
    unfolding calculateWorkingMemoryLoad_def Let_def l by (rule min.mono) simp
  from basic wm show ?thesis by simp
qed

theorem density_raises_count_scores_witness:
  "basicMetricsScore sparsePuzzle \<le> basicMetricsScore densePuzzle \<and>
   calculateWorkingMemoryLoad sparsePuzzle \<le> calculateWorkingMemoryLoad densePuzzle"
  using density_raises_count_scores [OF dense_denser] .

theorem difficulty_monotonicity_counterexample:
  "denser densePuzzle sparsePuzzle \<and>
   overallDifficulty densePuzzle < overallDifficulty sparsePuzzle"
  using dense_denser by (simp add: overall_sparse overall_dense)

section \<open>The solvability oracle\<close>






subsection \<open>The nearest obstacle of a ray\<close>

lemma record_hit_nearest:
  assumes "isNearest st cs"
  shows "isNearest (record_hit ot obj st) (cs @ (case ot of None \<Rightarrow> [] | Some t \<Rightarrow> [(t, obj)]))"
proof (cases ot)
  case None
  then show ?thesis using assms by (simp add: record_hit_def)
next
  case (Some t)
  show ?thesis
  proof (cases st)
    case None
    with assms have "cs = []" by (simp add: isNearest_def)
    with None Some show ?thesis
      by (simp add: record_hit_def closer_def isNearest_def)
  next
    case (Some m)
    obtain t0 obj0 where m: "m = (t0, obj0)" by (cases m)
    from assms Some m have mem: "(t0, obj0) \<in> set cs" and least: "\<forall>(t', obj') \<in> set cs. t0 \<le> t'"
      by (simp_all add: isNearest_def)
    show ?thesis
    proof (cases "t < t0")
      case True
      with least have "\<forall>(t', obj') \<in> set cs. t \<le> t'" by fastforce
      with True Some m \<open>ot = Some t\<close> show ?thesis
        by (simp add: record_hit_def closer_def isNearest_def)
    next
      case False
      with mem least Some m \<open>ot = Some t\<close> show ?thesis
        by (simp add: record_hit_def closer_def isNearest_def)
    qed
  qed
qed

lemma fold_record_hit_nearest:
  assumes "isNearest st cs"
  shows "isNearest (fold (\<lambda>x. record_hit (f x) (g x)) xs st)
           (cs @ concat (map (\<lambda>x. case f x of None \<Rightarrow> [] | Some t \<Rightarrow> [(t, g x)]) xs))"
  using assms
proof (induction xs arbitrary: st cs)
  case Nil
  then show ?case by simp
next
  case (Cons x xs)
  from record_hit_nearest [OF Cons.prems, of "f x" "g x"]
  have "isNearest (record_hit (f x) (g x) st)
          (cs @ (case f x of None \<Rightarrow> [] | Some t \<Rightarrow> [(t, g x)]))" .
  from Cons.IH [OF this] show ?case by simp
qed

lemma blockerStep_record:
  "blockerStep e (cos (degToRad (o_angle e))) (sin (degToRad (o_angle e))) =
     (\<lambda>b. record_hit (if blockerCandidate e b then blockerT e b else None) (Blocker b))"
  by (rule ext, rule ext)
     (auto simp: blockerStep_def blockerCandidate_def blockerT_def record_hit_def Let_def)

lemma emitterStep_record:
  "emitterStep e (cos (degToRad (o_angle e))) (sin (degToRad (o_angle e))) =
     (\<lambda>other. record_hit (if sameEmitter other e then None else emitterT e other) (Emitter other))"
  by (rule ext, rule ext) (auto simp: emitterStep_def emitterT_def record_hit_def Let_def)

lemma edgeStep_record:
  "edgeStep e (cos (degToRad (o_angle e))) (sin (degToRad (o_angle e))) =
     (\<lambda>edge. record_hit (edgeT e edge) (Edge edge))"
  by (rule ext, rule ext) (auto simp: edgeStep_def edgeT_def Let_def)

lemma castRay_nearest: "isNearest (castRay e bs es lines) (candidates e bs es lines)"
proof -
  have 0: "isNearest None []" by (simp add: isNearest_def)
  note 1 = fold_record_hit_nearest [OF 0,
      of "\<lambda>b. if blockerCandidate e b then blockerT e b else None" Blocker bs]
  note 2 = fold_record_hit_nearest [OF 1,
      of "\<lambda>other. if sameEmitter other e then None else emitterT e other" Emitter es]
  note 3 = fold_record_hit_nearest [OF 2, of "edgeT e" Edge lines]
  show ?thesis
    unfolding castRay_def Let_def candidates_def blockerStep_record emitterStep_record
      edgeStep_record
    using 3 by simp
qed

lemma candidates_blocker:
  "(t, Blocker b) \<in> set (candidates e bs es lines) \<longleftrightarrow>
     b \<in> set bs \<and> blockerCandidate e b \<and> blockerT e b = Some t"
  unfolding candidates_def by (auto split: option.splits if_splits)

lemma candidates_emitter:
  "(t, Emitter other) \<in> set (candidates e bs es lines) \<longleftrightarrow>
     other \<in> set es \<and> \<not> sameEmitter other e \<and> emitterT e other = Some t"
  unfolding candidates_def by (auto split: option.splits if_splits)

lemma candidates_edge:
  "(t, Edge edge) \<in> set (candidates e bs es lines) \<longleftrightarrow>
     edge \<in> set lines \<and> edgeT e edge = Some t"
  unfolding candidates_def by (auto split: option.splits if_splits)

lemma circleHit_radius_mono:
  assumes "circleHit ex ey dx dy cx cy (12 * 12) = Some t"
  shows "\<exists>t'. circleHit ex ey dx dy cx cy (13 * 13) = Some t'"
  using assms unfolding circleHit_def Let_def
  by (auto split: if_splits)

lemma closestIsLitEdge_iff:
  "closestIsLitEdge st litIdx \<longleftrightarrow> (\<exists>t edge. st = Some (t, Edge edge) \<and> int (e_i edge) = litIdx)"
  unfolding closestIsLitEdge_def by (auto split: option.splits hitObj.splits)


lemma opposite_slot:
  fixes s :: int
  assumes "0 \<le> s" "s < 12"
  shows "(s + 6) mod 12 = (if s < 6 then s + 6 else s - 6)"
proof (cases "s < 6")
  case True
  then show ?thesis using assms by simp
next
  case False
  have "s + 6 = s - 6 + 12" by simp
  then have "(s + 6) mod 12 = (s - 6 + 12) mod 12" by (rule arg_cong)
  also have "\<dots> = (s - 6) mod 12" by (simp only: mod_add_self2)
  also have "\<dots> = s - 6" using False assms by simp
  finally show ?thesis using False by simp
qed

lemma areAtSamePosition_slots:
  assumes "0 \<le> sb" "sb < 12" "0 \<le> se" "se < 12"
  shows "areAtSamePosition (positionToAngle sb) (positionToAngle se) \<longleftrightarrow>
           sb = se \<or> sb = (se + 6) mod 12"
proof -
  have b: "angleToPosition (positionToAngle sb) = sb"
    using assms by (simp add: positionToAngle_slot angleToPosition_slot)
  have e: "angleToPosition (positionToAngle se) = se"
    using assms by (simp add: positionToAngle_slot angleToPosition_slot)
  have mb: "js_imod (sb + 6) 12 = (if sb < 6 then sb + 6 else sb - 6)"
    using assms opposite_slot [of sb] by (simp add: js_imod_def sgn_if)
  have me: "js_imod (se + 6) 12 = (if se < 6 then se + 6 else se - 6)"
    using assms opposite_slot [of se] by (simp add: js_imod_def sgn_if)
  have "areAtSamePosition (positionToAngle sb) (positionToAngle se) \<longleftrightarrow>
          sb = se \<or> sb = (if se < 6 then se + 6 else se - 6)
            \<or> se = (if sb < 6 then sb + 6 else sb - 6)"
    unfolding areAtSamePosition_def Let_def b e mb me ..
  also have "\<dots> \<longleftrightarrow> sb = se \<or> sb = (if se < 6 then se + 6 else se - 6)"
    using assms by auto
  also have "\<dots> \<longleftrightarrow> sb = se \<or> sb = (se + 6) mod 12"
    using opposite_slot [OF assms(3,4)] by simp
  finally show ?thesis .
qed

lemma offGrid_objects:
  "o_idx offGridEmitter = 0" "originalAngle offGridEmitter = 15"
  "o_idx offGridBlocker = 0" "originalAngle offGridBlocker = 25"
  by (simp_all add: offGridEmitter_def offGridBlocker_def placeEmitters_def placeBlockers_def
      offGridPuzzle_def Let_def)

lemma mod360_small: "0 \<le> x \<Longrightarrow> x < 360 \<Longrightarrow> mod360 x = x"
  by (simp add: mod360_def js_mod_small js_mod_once)

lemma same_position_25_15: "areAtSamePosition 25 15"
  by (simp add: areAtSamePosition_def angleToPosition_def js_mod_once js_round_def js_imod_def)

lemma not_within_one_degree_25_15: "\<not> hasAngleOrOpposite [25] 15"
  by (simp add: hasAngleOrOpposite_def mod360_small)

text \<open>
  Claim C2, as amended. In the oracle's ray cast for one emitter, a blocker on the
  emitter's own ring is a candidate obstacle only when \<^verbatim>\<open>areAtSamePosition\<close> holds of the two
  original angles, that is when \<^verbatim>\<open>angleToPosition\<close> rounds them to the same or to opposite
  slots (for angles on the slot grid \<open>15 + 30 k\<close>: exactly the same or the opposite slot;
  there is no tolerance of one degree in this path); a blocker on any other ring is always
  a candidate; every other emitter is a candidate with collision radius 13, which catches
  every ray that the blocker radius 12 catches; the result of the three loops is a
  candidate with the minimum ray parameter (nothing when no candidate is met), and a lit
  edge counts as hit only when that nearest obstacle is the edge with its index.
  The claim as stated fails for a blocker at 25 degrees on the ring of an emitter at 15
  degrees: the blocker is 10 degrees away from the emitter and 170 from its opposite, the
  one-degree test \<^verbatim>\<open>hasAngleOrOpposite\<close> rejects it, and the oracle takes it as a candidate.
\<close>

theorem ray_cast_nearest_candidate:
  assumes "0 \<le> sb" "sb < 12" "0 \<le> se" "se < 12"
  shows "isNearest (castRay e bs es lines) (candidates e bs es lines) \<and>
    ((t, Blocker b) \<in> set (candidates e bs es lines) \<longleftrightarrow>
       b \<in> set bs \<and> blockerT e b = Some t \<and>
       (o_idx b \<noteq> o_idx e \<or> areAtSamePosition (originalAngle b) (originalAngle e))) \<and>
    (areAtSamePosition (positionToAngle sb) (positionToAngle se) \<longleftrightarrow>
       sb = se \<or> sb = (se + 6) mod 12) \<and>
    ((t, Emitter other) \<in> set (candidates e bs es lines) \<longleftrightarrow>
       other \<in> set es \<and> \<not> sameEmitter other e \<and> emitterT e other = Some t) \<and>
    ((t, Edge edge) \<in> set (candidates e bs es lines) \<longleftrightarrow>
       edge \<in> set lines \<and> edgeT e edge = Some t) \<and>
    (circleHit ex ey dx dy cx cy (12 * 12) \<noteq> None \<longrightarrow>
       circleHit ex ey dx dy cx cy (13 * 13) \<noteq> None) \<and>
    (closestIsLitEdge (castRay e bs es lines) litIdx \<longleftrightarrow>
       (\<exists>t' edge'. castRay e bs es lines = Some (t', Edge edge') \<and> int (e_i edge') = litIdx))"
proof -
  have r: "circleHit ex ey dx dy cx cy (12 * 12) \<noteq> None \<longrightarrow>
       circleHit ex ey dx dy cx cy (13 * 13) \<noteq> None"
    using circleHit_radius_mono [of ex ey dx dy cx cy] by fastforce
  have b: "(t, Blocker b) \<in> set (candidates e bs es lines) \<longleftrightarrow>
       b \<in> set bs \<and> blockerT e b = Some t \<and>
       (o_idx b \<noteq> o_idx e \<or> areAtSamePosition (originalAngle b) (originalAngle e))"
    unfolding candidates_blocker blockerCandidate_def by blast
  note n = castRay_nearest [of e bs es lines]
  note g = areAtSamePosition_slots [OF assms]
  note em = candidates_emitter [of t other e bs es lines]
  note ed = candidates_edge [of t edge e bs es lines]
  note c = closestIsLitEdge_iff [of "castRay e bs es lines" litIdx]
  from n b g em ed r c show ?thesis
    by (intro conjI)
qed

theorem ray_cast_nearest_candidate_witness:
  "areAtSamePosition (positionToAngle 3) (positionToAngle 9) \<and>
   isNearest (castRay offGridEmitter [offGridBlocker] [offGridEmitter] [])
     (candidates offGridEmitter [offGridBlocker] [offGridEmitter] [])"
  using ray_cast_nearest_candidate [of 3 9 offGridEmitter "[offGridBlocker]" "[offGridEmitter]" "[]"]
  by simp

theorem same_ring_tolerance_counterexample:
  "o_idx offGridBlocker = o_idx offGridEmitter \<and>
   areAtSamePosition (originalAngle offGridBlocker) (originalAngle offGridEmitter) \<and>
   \<not> hasAngleOrOpposite [originalAngle offGridBlocker] (originalAngle offGridEmitter)"
  by (simp add: offGrid_objects same_position_25_15 not_within_one_degree_25_15)

section \<open>Puzzle generation and out-of-range parameters\<close>

declare pickDistinct.simps [simp del]
declare placePairs.simps [simp del]

lemma validDraws_Cons: "validDraws (r # rs) \<longleftrightarrow> 0 \<le> r \<and> r < 1 \<and> validDraws rs"
  by (auto simp: validDraws_def)

lemma randomFloor_slot:
  assumes "0 \<le> r" "r < 1"
  shows "0 \<le> randomFloor r 12 \<and> randomFloor r 12 < 12"
proof -
  have "0 \<le> r * 12" "r * 12 < 12" using assms by simp_all
  then show ?thesis unfolding randomFloor_def by (simp add: floor_less_iff)
qed

lemma pickDistinct_spec:
  assumes "pickDistinct n xs rs = Some (ys, rs')"
    and "validDraws rs" and "distinct xs" and "set xs \<subseteq> {0..11}"
  shows "distinct ys \<and> set ys \<subseteq> {0..11} \<and> int (length ys) = max (int (length xs)) n"
  using assms
proof (induction n xs rs rule: pickDistinct.induct)
  case (1 n xs rs)
  show ?case
  proof (cases "int (length xs) < n")
    case False
    with "1.prems" show ?thesis by (simp add: pickDistinct.simps [of n xs rs])
  next
    case True
    with "1.prems"(1) obtain r rs1 where rs: "rs = r # rs1"
      by (cases rs) (simp_all add: pickDistinct.simps [of n xs "[]"])
    define v where "v = randomFloor r 12"
    define xs' where "xs' = (if v \<in> set xs then xs else xs @ [v])"
    from "1.prems"(2) rs have r: "0 \<le> r" "r < 1" and rs1: "validDraws rs1"
      by (simp_all add: validDraws_Cons)
    from randomFloor_slot [OF r] have v: "0 \<le> v" "v < 12" by (simp_all add: v_def)
    have step: "pickDistinct n xs' rs1 = Some (ys, rs')"
      using "1.prems"(1) True rs
      by (auto simp: pickDistinct.simps [of n xs "r # rs1"] Let_def xs'_def v_def)
    have d: "distinct xs'" using "1.prems"(3) by (simp add: xs'_def)
    have s: "set xs' \<subseteq> {0..11}" using "1.prems"(4) v by (auto simp: xs'_def)
    from "1.IH" [OF True rs v_def step [unfolded xs'_def] rs1 d [unfolded xs'_def] s [unfolded xs'_def]]
    have IH: "distinct ys \<and> set ys \<subseteq> {0..11} \<and> int (length ys) = max (int (length xs')) n"
      by (simp add: xs'_def)
    have "int (length xs') \<le> n" using True by (simp add: xs'_def)
    then have "max (int (length xs')) n = max (int (length xs)) n" using True by simp
    with IH show ?thesis by simp
  qed
qed


lemma slots_bounded:
  assumes "distinct ys" and "set ys \<subseteq> {0..11::int}"
  shows "length ys \<le> 12"
proof -
  have "length ys = card (set ys)" using assms(1) by (simp add: distinct_card)
  also have "\<dots> \<le> card {0..11::int}" using assms(2) by (intro card_mono) simp_all
  also have "\<dots> = 12" by simp
  finally show ?thesis .
qed

lemma inverted_numLit:
  assumes "0 \<le> r" "r < 1" "maxLit < minLit"
  shows "maxLit < randomFloor r (of_int (maxLit - minLit + 1)) + minLit \<and>
         randomFloor r (of_int (maxLit - minLit + 1)) + minLit \<le> minLit"
proof -
  define d where "d = maxLit - minLit + 1"
  have d: "d \<le> 0" using assms(3) by (simp add: d_def)
  then have d': "real_of_int d \<le> 0" by simp
  have up: "r * of_int d \<le> 0"
    using assms(1) d' by (simp add: mult_nonneg_nonpos)
  have "(1 - r) * of_int d \<le> 0"
    using assms(2) d' by (simp add: mult_nonneg_nonpos)
  then have lo: "of_int d \<le> r * of_int d" by (simp add: algebra_simps)
  have "\<lfloor>r * of_int d\<rfloor> \<le> 0" using up by (simp add: floor_le_iff)
  moreover have "d \<le> \<lfloor>r * of_int d\<rfloor>" using lo by (simp add: le_floor_iff)
  ultimately show ?thesis unfolding randomFloor_def d_def by simp
qed

lemma randomCircles_length:
  "randomCircles radii rs = Some (cs, rs') \<Longrightarrow> length cs = length radii"
  by (induction radii arbitrary: rs cs rs') (auto split: option.splits)

lemma alignEmitter_length: "length (alignEmitter it cs) = length cs"
  by (simp add: alignEmitter_def Let_def)

lemma fold_alignEmitter_length: "length (fold alignEmitter its cs) = length cs"
  by (induction its arbitrary: cs) (simp_all add: alignEmitter_length)

lemma generatePuzzle_litEdges:
  assumes "generatePuzzle minLit maxLit (r # rs) = Some (p, rs')" and "validDraws (r # rs)"
  shows "distinct (litEdges p) \<and> sorted (litEdges p) \<and> set (litEdges p) \<subseteq> {0..11} \<and>
         int (length (litEdges p)) = max 0 (randomFloor r (of_int (maxLit - minLit + 1)) + minLit) \<and>
         length (circles p) = 3"
proof -
  define numLit where "numLit = randomFloor r (of_int (maxLit - minLit + 1)) + minLit"
  from assms(1) obtain picked rs2 cs where
    pick: "pickDistinct numLit [] rs = Some (picked, rs2)"
    and circ: "randomCircles [50, 90, 130] rs2 = Some (cs, rs')"
    and p: "p = \<lparr>litEdges = sort picked,
                  circles = fold alignEmitter (enumerate 0 (sort picked)) cs\<rparr>"
    unfolding generatePuzzle_def Let_def numLit_def
    by (auto split: option.splits)
  from assms(2) have "validDraws rs" by (simp add: validDraws_Cons)
  from pickDistinct_spec [OF pick this] have
    "distinct picked" "set picked \<subseteq> {0..11}" "int (length picked) = max 0 numLit"
    by simp_all
  moreover have "length cs = 3"
    using randomCircles_length [OF circ] by simp
  ultimately show ?thesis
    unfolding p numLit_def by (simp add: fold_alignEmitter_length)
qed

lemma invertedRun_result:
  "generatePuzzle 5 3 invertedRun =
     Some (\<lparr>litEdges = [0, 1, 6, 10],
            circles = [\<lparr>radius = 50, lasers = [315], blockers = [45]\<rparr>,
                       \<lparr>radius = 90, lasers = [15], blockers = [45]\<rparr>,
                       \<lparr>radius = 130, lasers = [195], blockers = [45]\<rparr>]\<rparr>, [])"
  unfolding invertedRun_def by code_simp

lemma emptyLitRun_result:
  "generatePuzzle 0 (- 1) emptyLitRun =
     Some (\<lparr>litEdges = [],
            circles = [\<lparr>radius = 50, lasers = [15], blockers = [45]\<rparr>,
                       \<lparr>radius = 90, lasers = [15], blockers = [45]\<rparr>,
                       \<lparr>radius = 130, lasers = [15], blockers = [45]\<rparr>]\<rparr>, [])"
  unfolding emptyLitRun_def by code_simp

text \<open>
  Claim C7, as amended. Puzzle generation has no raising step for out-of-range numbers,
  and a difficulty string that names no property inherited from \<^verbatim>\<open>Object.prototype\<close> gets a
  preset: its own when it is easy, medium or hard, and the medium preset otherwise. An
  inverted range is not clamped: \<^verbatim>\<open>generatePuzzle(minLit, maxLit)\<close> with \<open>maxLit < minLit\<close>
  draws a count \<open>numLit\<close> with \<open>maxLit < numLit \<le> minLit\<close>; whenever the call returns,
  \<^verbatim>\<open>litEdges\<close> holds exactly \<open>max 0 numLit\<close> distinct edges of \<open>0..11\<close> (none when
  \<open>minLit \<le> 0\<close>), \<open>numLit\<close> is at most 12 and there are three circles; with \<open>maxLit \<ge> 12\<close>
  the call never returns. The claim as stated fails for \<^verbatim>\<open>generatePuzzle(0, -1)\<close>, which
  returns a puzzle with no lit edge.
\<close>

theorem generation_without_clamping:
  assumes "validDraws rs" and "maxLit < minLit"
    and "difficulty \<notin> set objectPrototypeProperties"
  shows "(\<exists>c. getDifficultyConfig difficulty = Preset c) \<and>
         (difficulty \<notin> {''easy'', ''medium'', ''hard''} \<longrightarrow>
            getDifficultyConfig difficulty = getDifficultyConfig ''medium'') \<and>
         (case generatePuzzle minLit maxLit rs of
            None \<Rightarrow> True
          | Some (p, _) \<Rightarrow>
              (\<exists>numLit. maxLit < numLit \<and> numLit \<le> minLit \<and> numLit \<le> 12 \<and>
                  int (length (litEdges p)) = max 0 numLit) \<and>
              distinct (litEdges p) \<and> set (litEdges p) \<subseteq> {0..11} \<and>
              length (circles p) = 3) \<and>
         (12 \<le> maxLit \<longrightarrow> generatePuzzle minLit maxLit rs = None)"
proof -
  have cfg: "(\<exists>c. getDifficultyConfig difficulty = Preset c) \<and>
         (difficulty \<notin> {''easy'', ''medium'', ''hard''} \<longrightarrow>
            getDifficultyConfig difficulty = getDifficultyConfig ''medium'')"
    using assms(3) by (auto simp: getDifficultyConfig_def configs_def)
  have gen: "(\<exists>numLit. maxLit < numLit \<and> numLit \<le> minLit \<and> numLit \<le> 12 \<and>
                  int (length (litEdges p)) = max 0 numLit) \<and>
              distinct (litEdges p) \<and> set (litEdges p) \<subseteq> {0..11} \<and>
              length (circles p) = 3"
    if run: "generatePuzzle minLit maxLit rs = Some (p, rs')" for p rs'
  proof -
    from run obtain r rs1 where rs: "rs = r # rs1"
      by (cases rs) (simp_all add: generatePuzzle_def)
    define numLit where "numLit = randomFloor r (of_int (maxLit - minLit + 1)) + minLit"
    from assms(1) rs have r: "0 \<le> r" "r < 1" by (simp_all add: validDraws_Cons)
    from inverted_numLit [OF r assms(2)] have range: "maxLit < numLit" "numLit \<le> minLit"
      by (simp_all add: numLit_def)
    from generatePuzzle_litEdges [OF run [unfolded rs] assms(1) [unfolded rs]]
    have lit: "distinct (litEdges p)" "set (litEdges p) \<subseteq> {0..11}"
      "int (length (litEdges p)) = max 0 numLit" "length (circles p) = 3"
      by (simp_all add: numLit_def)
    from slots_bounded [OF lit(1,2)] lit(3) have "numLit \<le> 12" by simp
    with range lit show ?thesis by blast
  qed
  have never: "generatePuzzle minLit maxLit rs = None" if big: "12 \<le> maxLit"
  proof (rule ccontr)
    assume "generatePuzzle minLit maxLit rs \<noteq> None"
    then obtain p rs' where "generatePuzzle minLit maxLit rs = Some (p, rs')" by auto
    from gen [OF this] big show False by auto
  qed
  from gen have "case generatePuzzle minLit maxLit rs of
            None \<Rightarrow> True
          | Some (p, _) \<Rightarrow>
              (\<exists>numLit. maxLit < numLit \<and> numLit \<le> minLit \<and> numLit \<le> 12 \<and>
                  int (length (litEdges p)) = max 0 numLit) \<and>
              distinct (litEdges p) \<and> set (litEdges p) \<subseteq> {0..11} \<and>
              length (circles p) = 3"
    by (auto split: option.splits)
  with cfg never show ?thesis by blast
qed

theorem generation_without_clamping_witness:
  "getDifficultyConfig ''impossible'' = getDifficultyConfig ''medium'' \<and>
   map_option (length \<circ> litEdges \<circ> fst) (generatePuzzle 5 3 invertedRun) = Some 4 \<and>
   generatePuzzle 13 12 invertedRun = None"
proof -
  have 1: "validDraws invertedRun"
    by (simp add: validDraws_def invertedRun_def)
  have 2: "''impossible'' \<notin> set objectPrototypeProperties"
    by (simp add: objectPrototypeProperties_def)
  have a: "getDifficultyConfig ''impossible'' = getDifficultyConfig ''medium''"
    using generation_without_clamping [of invertedRun 3 5 "''impossible''"] 1 2 by simp
  have b: "generatePuzzle 13 12 invertedRun = None"
    using generation_without_clamping [of invertedRun 12 13 "''impossible''"] 1 2 by simp
  from a b show ?thesis by (simp add: invertedRun_result)
qed

theorem inverted_range_counterexample:
  "(- 1 :: int) < 0 \<and> validDraws emptyLitRun \<and>
   map_option (litEdges \<circ> fst) (generatePuzzle 0 (- 1) emptyLitRun) = Some []"
  by (simp add: emptyLitRun_result) (simp add: validDraws_def emptyLitRun_def)

end
